theory Spec2Isabelle
  imports Main "HOL-Library.Sublist"
begin

text \<open>
  A shallow embedding of the upload pipeline of the spreadsheet reader: the validator, the
  temp storage, the dispatch to the two parsers, the summary builder and the responses of
  \<^verbatim>\<open>POST /api/upload\<close> (\<^verbatim>\<open>server/index.js\<close>), and the checks and the preview of the browser
  form (\<^verbatim>\<open>FileUploader.tsx\<close>). The parsing libraries are parameters of the model.
\<close>

section \<open>Strings of the JavaScript runtime\<close>

text \<open>
  The server (\<^verbatim>\<open>server/index.js\<close>) and the browser form (\<^verbatim>\<open>FileUploader.tsx\<close>) work on
  JavaScript strings. They are modelled as \<^typ>\<open>string\<close>. Case conversion is modelled on the
  ASCII letters, every other character is left as it is; no character outside ASCII is
  mapped by \<^verbatim>\<open>toLowerCase\<close> onto one of the letters of \<^verbatim>\<open>.csv\<close>, \<^verbatim>\<open>.xls\<close>, \<^verbatim>\<open>.xlsx\<close>, so the
  comparisons of the program come out as in the runtime.
\<close>

definition ascii_upper :: string where
  "ascii_upper = ''ABCDEFGHIJKLMNOPQRSTUVWXYZ''"

definition ascii_lower :: string where
  "ascii_lower = ''abcdefghijklmnopqrstuvwxyz''"

definition lower_char :: "char \<Rightarrow> char" where
  "lower_char c = (case map_of (zip ascii_upper ascii_lower) c of Some d \<Rightarrow> d | None \<Rightarrow> c)"

definition upper_char :: "char \<Rightarrow> char" where
  "upper_char c = (case map_of (zip ascii_lower ascii_upper) c of Some d \<Rightarrow> d | None \<Rightarrow> c)"

definition toLowerCase :: "string \<Rightarrow> string" where
  "toLowerCase s = map lower_char s"

definition toUpperCase :: "string \<Rightarrow> string" where
  "toUpperCase s = map upper_char s"

text \<open>\<^verbatim>\<open>s.substring(1)\<close>: the string without its first character, empty for the empty string.\<close>

definition substring1 :: "string \<Rightarrow> string" where
  "substring1 s = drop 1 s"

text \<open>\<^verbatim>\<open>s.endsWith(t)\<close>.\<close>

definition endsWith :: "string \<Rightarrow> string \<Rightarrow> bool" where
  "endsWith s t = suffix t s"

text \<open>
  \<^verbatim>\<open>path.extname\<close> of Node.js (POSIX flavour). Trailing slashes are ignored and only the
  last path component counts. The extension runs from the last dot of that component to
  its end; it is empty when the component has no dot, when its last dot is its first
  character, and when the component is \<^verbatim>\<open>..\<close>. So \<^verbatim>\<open>index.html\<close> gives \<^verbatim>\<open>.html\<close>,
  \<^verbatim>\<open>index.coffee.md\<close> gives \<^verbatim>\<open>.md\<close>, \<^verbatim>\<open>index.\<close> gives \<^verbatim>\<open>.\<close>, and \<^verbatim>\<open>index\<close> and \<^verbatim>\<open>.index\<close>
  give the empty string.
\<close>

definition last_component :: "string \<Rightarrow> string" where
  "last_component p =
     rev (takeWhile (\<lambda>c. c \<noteq> CHR ''/'') (dropWhile (\<lambda>c. c = CHR ''/'') (rev p)))"

definition extname :: "string \<Rightarrow> string" where
  "extname p =
     (let part = last_component p;
          after_dot = rev (takeWhile (\<lambda>c. c \<noteq> CHR ''.'') (rev part));
          before_dot = take (length part - length after_dot - 1) part
      in if CHR ''.'' \<notin> set part then []
         else if before_dot = [] then []
         else if part = ''..'' then []
         else CHR ''.'' # after_dot)"

section \<open>Validator\<close>

text \<open>
  The file part of a multipart request, as the upload middleware sees it: the form field
  it was sent under, the name and MIME type the client declared, and the bytes. A request
  carries one file part or none (the form sends a single file); a part without a file
  name is no file part for the middleware.
\<close>

record incoming_file =
  fieldname :: string
  originalname :: string
  mimetype :: string
  content :: string

text \<open>
  An error value of the runtime: a plain \<^verbatim>\<open>Error\<close> with its message, or the upload
  middleware's \<^verbatim>\<open>MulterError\<close> with its code and message.
\<close>

datatype js_error = Error string | MulterError string string

fun error_message :: "js_error \<Rightarrow> string" where
  "error_message (Error m) = m"
| "error_message (MulterError c m) = m"

definition allowedTypes :: "string list" where
  "allowedTypes =
     [''text/csv'',
      ''application/vnd.ms-excel'',
      ''application/vnd.openxmlformats-officedocument.spreadsheetml.sheet'',
      ''application/csv'']"

definition allowedExtensions :: "string list" where
  "allowedExtensions = [''.csv'', ''.xls'', ''.xlsx'']"

definition invalid_type_message :: string where
  "invalid_type_message = ''Invalid file type. Only CSV and Excel files are allowed.''"

text \<open>
  The \<^verbatim>\<open>fileFilter\<close> option of the upload middleware (server): \<^verbatim>\<open>cb(null, true)\<close> is
  \<^term>\<open>Inr True\<close>, \<^verbatim>\<open>cb(new Error(...), false)\<close> is \<^term>\<open>Inl\<close> of the error.
\<close>

definition fileFilter :: "incoming_file \<Rightarrow> js_error + bool" where
  "fileFilter file =
     (let fileExtension = toLowerCase (extname (originalname file))
      in if mimetype file \<in> set allowedTypes \<or> fileExtension \<in> set allowedExtensions
         then Inr True
         else Inl (Error invalid_type_message))"

text \<open>
  \<^verbatim>\<open>validateFile\<close> of the browser form: the first failing check gives the message shown,
  \<^term>\<open>None\<close> is \<^verbatim>\<open>null\<close> (the file is sent). It takes the \<^verbatim>\<open>name\<close>, \<^verbatim>\<open>type\<close> and \<^verbatim>\<open>size\<close>
  of the browser's \<^verbatim>\<open>File\<close>.
\<close>

definition fileSize_limit :: nat where
  "fileSize_limit = 10 * 1024 * 1024"

definition file_too_large_message :: string where
  "file_too_large_message = ''File too large. Maximum size allowed is 10MB.''"

definition hasValidExtension :: "string \<Rightarrow> bool" where
  "hasValidExtension name = list_ex (\<lambda>ext. endsWith (toLowerCase name) ext) allowedExtensions"

definition validateFile :: "string \<Rightarrow> string \<Rightarrow> nat \<Rightarrow> string option" where
  "validateFile name type size_bytes =
     (if type \<notin> set allowedTypes \<and> \<not> hasValidExtension name
      then Some ''Invalid file type. Please upload CSV or Excel files only.''
      else if size_bytes > fileSize_limit
      then Some file_too_large_message
      else None)"

section \<open>Objects of the runtime\<close>

text \<open>
  A plain JavaScript object with string keys, as the parsers and \<^verbatim>\<open>processExcel\<close> build them:
  the list of its own properties in the order they were created. \<^verbatim>\<open>Object.keys\<close> does not
  list them in that order: by the language's \<^verbatim>\<open>OrdinaryOwnPropertyKeys\<close>, the keys that are
  array indices (the canonical decimal numerals of 0 to 4294967294) come first, by ascending
  value, and the other keys follow in creation order.
\<close>

type_synonym 'v jsobj = "(string \<times> 'v) list"

definition is_digit :: "char \<Rightarrow> bool" where
  "is_digit c = (c \<in> set ''0123456789'')"

definition digit_value :: "char \<Rightarrow> nat" where
  "digit_value c =
     (case map_of (zip ''0123456789'' [0, 1, 2, 3, 4, 5, 6, 7, 8, 9]) c of
        Some d \<Rightarrow> d | None \<Rightarrow> 0)"

definition decimal_value :: "string \<Rightarrow> nat" where
  "decimal_value s = foldl (\<lambda>acc c. 10 * acc + digit_value c) 0 s"

definition is_array_index :: "string \<Rightarrow> bool" where
  "is_array_index k =
     (k \<noteq> [] \<and> list_all is_digit k \<and> (k = ''0'' \<or> take 1 k \<noteq> ''0'')
      \<and> decimal_value k < 4294967295)"

definition Object_keys :: "'v jsobj \<Rightarrow> string list" where
  "Object_keys obj =
     (let ks = map fst obj
      in sort_key decimal_value (filter is_array_index ks)
         @ filter (\<lambda>k. \<not> is_array_index k) ks)"

text \<open>
  \<^verbatim>\<open>obj[k] = v\<close>: an existing own property keeps its place, a new one is created last. The
  key \<^verbatim>\<open>__proto__\<close> is the accessor inherited from \<^verbatim>\<open>Object.prototype\<close>: assigning to it
  creates no own property (an object, such as the row arrays this program assigns,
  replaces the prototype; any other value is ignored).
\<close>

fun obj_put :: "string \<Rightarrow> 'v \<Rightarrow> 'v jsobj \<Rightarrow> 'v jsobj" where
  "obj_put k v [] = [(k, v)]"
| "obj_put k v (p # ps) = (if fst p = k then (k, v) # ps else p # obj_put k v ps)"

definition obj_assign :: "string \<Rightarrow> 'v \<Rightarrow> 'v jsobj \<Rightarrow> 'v jsobj" where
  "obj_assign k v obj = (if k = ''__proto__'' then obj else obj_put k v obj)"

text \<open>\<^verbatim>\<open>obj[k]\<close> for an own property; \<^term>\<open>None\<close> is \<^verbatim>\<open>undefined\<close>.\<close>

definition obj_get :: "'v jsobj \<Rightarrow> string \<Rightarrow> 'v option" where
  "obj_get obj k = map_of obj k"

section \<open>Data model\<close>

text \<open>A row-mapping: column name to cell value.\<close>

type_synonym row = "string jsobj"

text \<open>
  The parsed table: the row sequence of a delimited-text file, or the object from sheet
  name to row sequence of a workbook.
\<close>

datatype parsed_table = Delimited "row list" | Workbook "(row list) jsobj"

text \<open>
  \<^verbatim>\<open>processingInfo\<close>. The four fields of the object literal are always there; the
  format-specific ones are assigned later, \<^term>\<open>None\<close> is a property that was never assigned.
\<close>

record processing_info =
  fileName :: string
  fileSize :: string
  fileType :: string
  processedAt :: string
  rowCount :: "nat option"
  columns :: "string list option"
  sheetCount :: "nat option"
  sheetNames :: "string list option"
  totalRows :: "nat option"

text \<open>
  What \<^verbatim>\<open>res.status(n).json(body)\<close> sends: the status code and the properties of the body,
  \<^term>\<open>None\<close> for a property the body does not have.
\<close>

record response =
  status :: nat
  success :: bool
  message :: string
  data :: "parsed_table option"
  processingInfo :: "processing_info option"

text \<open>\<^verbatim>\<open>req.file\<close>, as the upload middleware sets it after it stored the file.\<close>

record req_file =
  filename :: string
  file_originalname :: string
  file_mimetype :: string
  file_size :: nat
  path :: string

section \<open>Environment\<close>

text \<open>
  The parsing libraries, the clock and the random source are outside the repository; the
  model takes them as parameters. \<^verbatim>\<open>csvParser\<close> maps the bytes of a file to the rows the
  stream emits, or to the error it emits. \<^verbatim>\<open>XLSX.readFile\<close> maps the bytes to a workbook
  (its \<^verbatim>\<open>SheetNames\<close> in declared order, its \<^verbatim>\<open>Sheets\<close>), or throws;
  \<^verbatim>\<open>XLSX.utils.sheet_to_json\<close> maps a worksheet (here its cell grid) to rows, or throws.
\<close>

type_synonym worksheet = "string list list"

record workbook =
  SheetNames :: "string list"
  Sheets :: "string \<Rightarrow> worksheet"

record env =
  csvParser :: "string \<Rightarrow> string + row list"
  XLSX_readFile :: "string \<Rightarrow> string + workbook"
  sheet_to_json :: "worksheet \<Rightarrow> string + row list"
  Date_now :: nat
  Math_random_1E9 :: nat
  Date_toISOString :: string
  uploadsDir :: string

text \<open>
  The state a request works on: the files of the disk, and the trace of what the request
  did so far, oldest event first.
\<close>

datatype parser_variant = DelimitedText | WorkbookReader

datatype event =
    Stored string
  | ParserInvoked parser_variant string
  | Unlinked string
  | Responded response
  | UncaughtException

record world =
  disk :: "string \<Rightarrow> string option"
  trace :: "event list"

definition emit :: "event \<Rightarrow> world \<Rightarrow> world" where
  "emit ev w = w\<lparr>trace := trace w @ [ev]\<rparr>"

text \<open>
  How a block of the program ends: it completes with a value, it throws an error with a
  message (a rejected promise under \<^verbatim>\<open>await\<close> is a throw), or the process dies of an
  uncaught exception.
\<close>

datatype 'a completion = Value 'a | Exception string | Crash

section \<open>Numbers as text\<close>

definition digit_char :: "nat \<Rightarrow> char" where
  "digit_char d = ''0123456789'' ! (d mod 10)"

fun string_of_nat :: "nat \<Rightarrow> string" where
  "string_of_nat n =
     (if n < 10 then [digit_char n] else string_of_nat (n div 10) @ [digit_char (n mod 10)])"

declare string_of_nat.simps [simp del]

text \<open>
  \<^verbatim>\<open>(size / 1024).toFixed(2) + ' KB'\<close>. The quotient is exact in a double (a division by a
  power of two), and \<^verbatim>\<open>toFixed\<close> rounds the exact value to the nearest hundredth, a tie
  upwards: the number of hundredths is size * 100 / 1024 + 1/2, rounded down.
\<close>

definition size_in_KB :: "nat \<Rightarrow> string" where
  "size_in_KB size_bytes =
     (let hundredths = (size_bytes * 25 + 128) div 256
      in string_of_nat (hundredths div 100) @ ''.''
         @ [digit_char (hundredths mod 100 div 10), digit_char (hundredths mod 10)]
         @ '' KB'')"

section \<open>Temp storage\<close>

text \<open>
  \<^verbatim>\<open>fs.existsSync\<close> and \<^verbatim>\<open>fs.unlinkSync\<close>. Unlinking a path that has no file throws
  \<^verbatim>\<open>ENOENT\<close>; the disk itself is taken to work (no permission or device fault).
\<close>

definition existsSync :: "string \<Rightarrow> world \<Rightarrow> bool" where
  "existsSync p w = (disk w p \<noteq> None)"

definition unlinkSync :: "string \<Rightarrow> world \<Rightarrow> string + world" where
  "unlinkSync p w =
     (if disk w p = None then Inl (''ENOENT: no such file or directory, unlink '' @ p)
      else Inr (emit (Unlinked p) (w\<lparr>disk := (disk w)(p := None)\<rparr>)))"

text \<open>
  The release of the stored file, written twice in the handler (after the summary, and in
  the \<^verbatim>\<open>catch\<close> of a processing error):
  \<^verbatim>\<open>if (fs.existsSync(filePath)) { fs.unlinkSync(filePath); }\<close>
\<close>

definition cleanup :: "string \<Rightarrow> world \<Rightarrow> string + world" where
  "cleanup filePath w = (if existsSync filePath w then unlinkSync filePath w else Inr w)"

text \<open>
  The disk storage of the upload middleware: the \<^verbatim>\<open>filename\<close> callback of the program names
  the file, the middleware writes the bytes under \<^verbatim>\<open>uploadsDir\<close>.
\<close>

definition storage_filename :: "env \<Rightarrow> incoming_file \<Rightarrow> string" where
  "storage_filename e file =
     (let uniqueSuffix = string_of_nat (Date_now e) @ ''-'' @ string_of_nat (Math_random_1E9 e)
      in fieldname file @ ''-'' @ uniqueSuffix @ extname (originalname file))"

definition stored_as :: "env \<Rightarrow> incoming_file \<Rightarrow> req_file" where
  "stored_as e file =
     (let name = storage_filename e file
      in \<lparr>filename = name, file_originalname = originalname file,
          file_mimetype = mimetype file, file_size = length (content file),
          path = uploadsDir e @ ''/'' @ name\<rparr>)"

definition store :: "env \<Rightarrow> incoming_file \<Rightarrow> world \<Rightarrow> world" where
  "store e file w =
     (let p = path (stored_as e file)
      in emit (Stored p) (w\<lparr>disk := (disk w)(p \<mapsto> content file)\<rparr>))"

text \<open>
  \<^verbatim>\<open>upload.single('file')\<close> with the program's options. The middleware is a library; its
  documented behaviour is: a request without a file part goes on with \<^verbatim>\<open>req.file\<close>
  undefined; a file part under another field name is refused with the \<^verbatim>\<open>MulterError\<close>
  \<^verbatim>\<open>LIMIT_UNEXPECTED_FILE\<close>; the file filter is asked before anything is stored, and its
  error is passed on; a file of more than \<^verbatim>\<open>limits.fileSize\<close> bytes is refused with the
  \<^verbatim>\<open>MulterError\<close> \<^verbatim>\<open>LIMIT_FILE_SIZE\<close> and what was written of it is removed; otherwise the
  file is stored and \<^verbatim>\<open>req.file\<close> describes it. \<^term>\<open>Inl\<close> is \<^verbatim>\<open>next(err)\<close>.
\<close>

definition upload_single ::
  "env \<Rightarrow> incoming_file option \<Rightarrow> world \<Rightarrow> (js_error + req_file option) \<times> world" where
  "upload_single e part w =
     (case part of
        None \<Rightarrow> (Inr None, w)
      | Some file \<Rightarrow>
          if fieldname file \<noteq> ''file''
          then (Inl (MulterError ''LIMIT_UNEXPECTED_FILE'' ''Unexpected field''), w)
          else (case fileFilter file of
                  Inl err \<Rightarrow> (Inl err, w)
                | Inr accepted \<Rightarrow>
                    if \<not> accepted then (Inr None, w)
                    else if length (content file) > fileSize_limit
                    then (Inl (MulterError ''LIMIT_FILE_SIZE'' ''File too large''), w)
                    else (Inr (Some (stored_as e file)), store e file w)))"

section \<open>Format parsers\<close>

text \<open>
  \<^verbatim>\<open>processCSV\<close>: the promise resolves with the rows the parser emitted, in order, or rejects
  with the parser's error. The \<^verbatim>\<open>error\<close> listener is on the parser stream only: when the
  file cannot be opened, the read stream's error has no listener and the process dies.
\<close>

definition processCSV :: "env \<Rightarrow> string \<Rightarrow> world \<Rightarrow> (row list) completion \<times> world" where
  "processCSV e filePath w =
     (let w1 = emit (ParserInvoked DelimitedText filePath) w
      in case disk w filePath of
           None \<Rightarrow> (Crash, emit UncaughtException w1)
         | Some bytes \<Rightarrow>
             (case csvParser e bytes of
                Inl m \<Rightarrow> (Exception m, w1)
              | Inr results \<Rightarrow> (Value results, w1)))"

text \<open>
  The loop of \<^verbatim>\<open>processExcel\<close>:
  \<^verbatim>\<open>sheetNames.forEach(sheetName => { ...; result[sheetName] = jsonData; })\<close>
\<close>

fun sheets_forEach ::
  "env \<Rightarrow> workbook \<Rightarrow> string list \<Rightarrow> (row list) jsobj \<Rightarrow> string + (row list) jsobj" where
  "sheets_forEach e wb [] result = Inr result"
| "sheets_forEach e wb (sheetName # rest) result =
     (case sheet_to_json e (Sheets wb sheetName) of
        Inl m \<Rightarrow> Inl m
      | Inr jsonData \<Rightarrow> sheets_forEach e wb rest (obj_assign sheetName jsonData result))"

text \<open>
  \<^verbatim>\<open>processExcel\<close>: whatever the library throws is thrown again with the prefix. The
  library's \<^verbatim>\<open>readFile\<close> is taken to be there (the first branch of the method test).
\<close>

definition processExcel ::
  "env \<Rightarrow> string \<Rightarrow> world \<Rightarrow> ((row list) jsobj) completion \<times> world" where
  "processExcel e filePath w =
     (let w1 = emit (ParserInvoked WorkbookReader filePath) w;
          loaded = (case disk w filePath of
                      None \<Rightarrow> Inl (''ENOENT: no such file or directory, open '' @ filePath)
                    | Some bytes \<Rightarrow> XLSX_readFile e bytes)
      in case loaded of
           Inl m \<Rightarrow> (Exception (''Error processing Excel file: '' @ m), w1)
         | Inr wb \<Rightarrow>
             (case sheets_forEach e wb (SheetNames wb) [] of
                Inl m \<Rightarrow> (Exception (''Error processing Excel file: '' @ m), w1)
              | Inr result \<Rightarrow> (Value result, w1)))"

section \<open>Summary builder and pipeline controller\<close>

text \<open>
  The loop of the handler over \<^verbatim>\<open>Object.keys(fileData)\<close>:
  \<^verbatim>\<open>totalRows += fileData[sheetName].length\<close>; reading \<^verbatim>\<open>length\<close> of \<^verbatim>\<open>undefined\<close> throws.
\<close>

fun count_rows :: "(row list) jsobj \<Rightarrow> string list \<Rightarrow> nat \<Rightarrow> string + nat" where
  "count_rows fileData [] counted = Inr counted"
| "count_rows fileData (sheetName # rest) counted =
     (case obj_get fileData sheetName of
        None \<Rightarrow> Inl ''Cannot read properties of undefined''
      | Some sheetData \<Rightarrow> count_rows fileData rest (counted + length sheetData))"

text \<open>
  The dispatch on the extension at the head of the inner \<^verbatim>\<open>try\<close>: parse, then fill in the
  format-specific fields of \<^verbatim>\<open>processingInfo\<close>.
\<close>

definition process_file ::
  "env \<Rightarrow> string \<Rightarrow> string \<Rightarrow> processing_info \<Rightarrow> world
     \<Rightarrow> (parsed_table \<times> processing_info) completion \<times> world" where
  "process_file e fileExtension filePath info w =
     (if fileExtension = ''.csv'' then
        (case processCSV e filePath w of
           (Value fileData, w1) \<Rightarrow>
             (Value (Delimited fileData,
                     info\<lparr>rowCount := Some (length fileData),
                          columns := Some (case fileData of
                                             [] \<Rightarrow> []
                                           | first # _ \<Rightarrow> Object_keys first)\<rparr>), w1)
         | (Exception m, w1) \<Rightarrow> (Exception m, w1)
         | (Crash, w1) \<Rightarrow> (Crash, w1))
      else if fileExtension \<in> set [''.xlsx'', ''.xls''] then
        (case processExcel e filePath w of
           (Value fileData, w1) \<Rightarrow>
             (let names = Object_keys fileData
              in case count_rows fileData names 0 of
                   Inl m \<Rightarrow> (Exception m, w1)
                 | Inr sum_rows \<Rightarrow>
                     (Value (Workbook fileData,
                             info\<lparr>sheetCount := Some (length names),
                                  sheetNames := Some names,
                                  totalRows := Some sum_rows\<rparr>), w1))
         | (Exception m, w1) \<Rightarrow> (Exception m, w1)
         | (Crash, w1) \<Rightarrow> (Crash, w1))
      else (Exception (''Unsupported file type: '' @ fileExtension), w))"

definition respond :: "response \<Rightarrow> world \<Rightarrow> world" where
  "respond r w = emit (Responded r) w"

definition json_failure :: "nat \<Rightarrow> string \<Rightarrow> response" where
  "json_failure code msg =
     \<lparr>status = code, success = False, message = msg, data = None, processingInfo = None\<rparr>"

definition json_success :: "parsed_table \<Rightarrow> processing_info \<Rightarrow> response" where
  "json_success fileData info =
     \<lparr>status = 200, success = True, message = ''File processed successfully'',
      data = Some fileData, processingInfo = Some info\<rparr>"

text \<open>\<^verbatim>\<open>error.message || 'Internal server error'\<close>\<close>

definition message_or_default :: "string \<Rightarrow> string" where
  "message_or_default m = (if m = [] then ''Internal server error'' else m)"

text \<open>The inner \<^verbatim>\<open>try\<close> block: process, release the stored file, answer.\<close>

definition try_block ::
  "env \<Rightarrow> string \<Rightarrow> string \<Rightarrow> processing_info \<Rightarrow> world \<Rightarrow> unit completion \<times> world" where
  "try_block e fileExtension filePath info w =
     (case process_file e fileExtension filePath info w of
        (Value (fileData, info'), w1) \<Rightarrow>
          (case cleanup filePath w1 of
             Inl m \<Rightarrow> (Exception m, w1)
           | Inr w2 \<Rightarrow> (Value (), respond (json_success fileData info') w2))
      | (Exception m, w1) \<Rightarrow> (Exception m, w1)
      | (Crash, w1) \<Rightarrow> (Crash, w1))"

text \<open>The \<^verbatim>\<open>catch (processingError)\<close> block: release the stored file, answer 500.\<close>

definition catch_block :: "string \<Rightarrow> string \<Rightarrow> world \<Rightarrow> unit completion \<times> world" where
  "catch_block filePath m w =
     (case cleanup filePath w of
        Inl m' \<Rightarrow> (Exception m', w)
      | Inr w1 \<Rightarrow> (Value (), respond (json_failure 500 (''Error processing file: '' @ m)) w1))"

text \<open>
  The handler of \<^verbatim>\<open>POST /api/upload\<close>, after the upload middleware: the \<^verbatim>\<open>processingInfo\<close>
  object literal, then the inner \<^verbatim>\<open>try\<close> and \<^verbatim>\<open>catch\<close>. The outer \<^verbatim>\<open>catch\<close> answers 500 for
  whatever the inner \<^verbatim>\<open>catch\<close> block throws.
\<close>

definition initial_info :: "env \<Rightarrow> req_file \<Rightarrow> string \<Rightarrow> processing_info" where
  "initial_info e f fileExtension =
     \<lparr>fileName = file_originalname f,
      fileSize = size_in_KB (file_size f),
      fileType = substring1 (toUpperCase fileExtension),
      processedAt = Date_toISOString e,
      rowCount = None, columns = None, sheetCount = None,
      sheetNames = None, totalRows = None\<rparr>"

definition upload_handler :: "env \<Rightarrow> req_file option \<Rightarrow> world \<Rightarrow> world" where
  "upload_handler e file w =
     (case file of
        None \<Rightarrow> respond (json_failure 400 ''No file uploaded'') w
      | Some f \<Rightarrow>
          (let filePath = path f;
               fileExtension = toLowerCase (extname (file_originalname f));
               info = initial_info e f fileExtension
           in case try_block e fileExtension filePath info w of
                (Exception m, w1) \<Rightarrow>
                  (case catch_block filePath m w1 of
                     (Exception m', w2) \<Rightarrow> respond (json_failure 500 (message_or_default m')) w2
                   | (_, w2) \<Rightarrow> w2)
              | (_, w1) \<Rightarrow> w1))"

text \<open>The error handling middleware, reached by \<^verbatim>\<open>next(err)\<close>.\<close>

fun is_LIMIT_FILE_SIZE :: "js_error \<Rightarrow> bool" where
  "is_LIMIT_FILE_SIZE (MulterError code m) = (code = ''LIMIT_FILE_SIZE'')"
| "is_LIMIT_FILE_SIZE (Error m) = False"

definition error_middleware :: "js_error \<Rightarrow> world \<Rightarrow> world" where
  "error_middleware err w =
     (if is_LIMIT_FILE_SIZE err then respond (json_failure 400 file_too_large_message) w
      else respond (json_failure 500 (message_or_default (error_message err))) w)"

text \<open>The route: upload middleware, then the handler, or the error middleware.\<close>

definition post_api_upload :: "env \<Rightarrow> incoming_file option \<Rightarrow> world \<Rightarrow> world" where
  "post_api_upload e part w =
     (case upload_single e part w of
        (Inl err, w1) \<Rightarrow> error_middleware err w1
      | (Inr file, w1) \<Rightarrow> upload_handler e file w1)"

text \<open>
  What a request did: the events it added to the trace, and the responses among them.
\<close>

definition upload_events :: "env \<Rightarrow> incoming_file option \<Rightarrow> world \<Rightarrow> event list" where
  "upload_events e part w = drop (length (trace w)) (trace (post_api_upload e part w))"

fun responses :: "event list \<Rightarrow> response list" where
  "responses [] = []"
| "responses (Responded r # evs) = r # responses evs"
| "responses (ev # evs) = responses evs"

fun is_parse_event :: "event \<Rightarrow> bool" where
  "is_parse_event (ParserInvoked v p) = True"
| "is_parse_event ev = False"

text \<open>The state after the guarded release of a path: the file is gone, if it was there.\<close>

definition released :: "string \<Rightarrow> world \<Rightarrow> world" where
  "released p w =
     (if disk w p = None then w else emit (Unlinked p) (w\<lparr>disk := (disk w)(p := None)\<rparr>))"

section \<open>Client\<close>

text \<open>
  \<^verbatim>\<open>renderDataPreview\<close> of the browser form, as the content it shows. For the delimited
  style: the row count and the number of columns of the summary, the column headers, and
  the first three rows. For the workbook style: the sheet count, the total rows and the
  size of the summary, and per sheet (in \<^verbatim>\<open>Object.keys\<close> order) its name, its number of
  rows, the keys of its first row and its first two rows. When the data is an array
  although the tag is not \<^verbatim>\<open>CSV\<close>, the component lists one entry per array index; the model
  keeps their number only.
\<close>

datatype sheet_view = SheetView string nat "string list" "row list"

datatype preview =
    NoPreview
  | DelimitedPreview nat nat "string list" "row list"
  | WorkbookPreview nat nat string "sheet_view list"
  | WorkbookPreviewOfArray nat
  | RenderError

definition render_sheet :: "(row list) jsobj \<Rightarrow> string \<Rightarrow> sheet_view option" where
  "render_sheet d sheetName =
     (case obj_get d sheetName of
        None \<Rightarrow> None
      | Some sheetData \<Rightarrow>
          Some (SheetView sheetName (length sheetData)
                  (case sheetData of [] \<Rightarrow> [] | first # _ \<Rightarrow> Object_keys first)
                  (take 2 sheetData)))"

definition renderDataPreview :: "parsed_table option \<Rightarrow> processing_info \<Rightarrow> preview" where
  "renderDataPreview d info =
     (case d of
        None \<Rightarrow> NoPreview
      | Some tbl \<Rightarrow>
          if fileType info = ''CSV'' then
            (let rows = (case tbl of Delimited rs \<Rightarrow> rs | Workbook obj \<Rightarrow> [])
             in DelimitedPreview
                  (case rowCount info of Some n \<Rightarrow> n | None \<Rightarrow> 0)
                  (case columns info of Some cs \<Rightarrow> length cs | None \<Rightarrow> 0)
                  (case columns info of Some cs \<Rightarrow> cs | None \<Rightarrow> [])
                  (take 3 rows))
          else
            (case tbl of
               Delimited rs \<Rightarrow> WorkbookPreviewOfArray (length rs)
             | Workbook obj \<Rightarrow>
                 (let views = map (render_sheet obj) (Object_keys obj)
                  in if None \<in> set views then RenderError
                     else WorkbookPreview
                            (case sheetCount info of Some n \<Rightarrow> n | None \<Rightarrow> 0)
                            (case totalRows info of Some n \<Rightarrow> n | None \<Rightarrow> 0)
                            (fileSize info)
                            (map the views))))"

text \<open>
  The result panel: the data preview is rendered for a successful result that has both a
  summary and data; \<^term>\<open>None\<close> is no preview panel.
\<close>

definition result_preview :: "response \<Rightarrow> preview option" where
  "result_preview r =
     (if success r then
        (case processingInfo r of
           None \<Rightarrow> None
         | Some info \<Rightarrow>
             (case data r of
                None \<Rightarrow> None
              | Some tbl \<Rightarrow> Some (renderDataPreview (Some tbl) info)))
      else None)"

fun is_delimited_preview :: "preview \<Rightarrow> bool" where
  "is_delimited_preview (DelimitedPreview n c cs rs) = True"
| "is_delimited_preview p = False"

section \<open>Example requests\<close>

text \<open>
  A parser environment for the examples. Both parsers follow the header-row-as-keys
  convention: the first row of a grid names the columns, and every further row becomes an
  object whose properties are assigned in column order. The delimited-text parser splits
  the bytes at line feeds and commas; the workbook reader knows two workbooks by their
  bytes and throws on anything else.
\<close>

fun split_on :: "char \<Rightarrow> string \<Rightarrow> string list" where
  "split_on sep [] = [[]]"
| "split_on sep (c # cs) =
     (if c = sep then [] # split_on sep cs
      else (case split_on sep cs of [] \<Rightarrow> [[c]] | x # xs \<Rightarrow> (c # x) # xs))"

definition grid_rows :: "worksheet \<Rightarrow> row list" where
  "grid_rows grid =
     (case grid of
        [] \<Rightarrow> []
      | header # body \<Rightarrow>
          map (\<lambda>cells. foldl (\<lambda>r (k, v). obj_assign k v r) [] (zip header cells)) body)"

definition csv_grid :: "string \<Rightarrow> worksheet" where
  "csv_grid bytes = map (split_on CHR '','') (filter (\<lambda>l. l \<noteq> []) (split_on CHR 0x0A bytes))"

definition two_sheets :: workbook where
  "two_sheets =
     \<lparr>SheetNames = [''Sales'', ''Costs''],
      Sheets = (\<lambda>n. if n = ''Sales''
                     then [[''id''], [''1''], [''2''], [''3''], [''4''], [''5'']]
                     else [[''id''], [''6''], [''7''], [''8'']])\<rparr>"

definition year_sheets :: workbook where
  "year_sheets =
     \<lparr>SheetNames = [''2024'', ''2023''],
      Sheets = (\<lambda>n. if n = ''2024''
                     then [[''id''], [''1''], [''2'']]
                     else [[''id''], [''3'']])\<rparr>"

definition sample_env :: env where
  "sample_env =
     \<lparr>csvParser = (\<lambda>bytes. Inr (grid_rows (csv_grid bytes))),
      XLSX_readFile = (\<lambda>bytes. if bytes = ''two sheets'' then Inr two_sheets
                               else if bytes = ''year sheets'' then Inr year_sheets
                               else Inl ''File is not a workbook''),
      sheet_to_json = (\<lambda>grid. Inr (grid_rows grid)),
      Date_now = 1700000000000,
      Math_random_1E9 = 123456789,
      Date_toISOString = ''2024-01-01T00:00:00.000Z'',
      uploadsDir = ''/srv/uploads''\<rparr>"

definition fresh_world :: world where
  "fresh_world = \<lparr>disk = Map.empty, trace = []\<rparr>"

definition upload_of :: "string \<Rightarrow> string \<Rightarrow> string \<Rightarrow> incoming_file" where
  "upload_of name type bytes =
     \<lparr>fieldname = ''file'', originalname = name, mimetype = type, content = bytes\<rparr>"

definition abc_csv :: string where
  "abc_csv = ''a,b,c'' @ [CHR 0x0A] @ ''1,2,3'' @ [CHR 0x0A] @ ''4,5,6'' @ [CHR 0x0A]"

definition years_csv :: string where
  "years_csv = ''2024,2023'' @ [CHR 0x0A] @ ''10,20'' @ [CHR 0x0A]"

definition oversize_bytes :: string where
  "oversize_bytes = replicate 10485761 CHR ''x''"

definition header_only_csv :: string where
  "header_only_csv = ''a,b,c'' @ [CHR 0x0A]"

section \<open>Properties\<close>

lemma extname_examples:
  "extname ''index.html'' = ''.html''"
  "extname ''index.coffee.md'' = ''.md''"
  "extname ''index.'' = ''.''"
  "extname ''index'' = ''''"
  "extname ''.index'' = ''''"
  "extname ''.index.md'' = ''.md''"
  "extname ''..'' = ''''"
  "extname ''dir.d/report.XLSX'' = ''.XLSX''"
  by (simp_all add: extname_def last_component_def Let_def)

subsection \<open>The validator\<close>

lemmas name_simps =
  toLowerCase_def toUpperCase_def extname_def last_component_def lower_char_def upper_char_def
  ascii_upper_def ascii_lower_def substring1_def Let_def

lemma fileFilter_cases:
  "fileFilter file = Inr True \<or> fileFilter file = Inl (Error invalid_type_message)"
  by (simp add: fileFilter_def Let_def)

text \<open>
  C2. The type check of the validator accepts a file if and only if its extension, in
  lower case, is one of \<^verbatim>\<open>.csv\<close>, \<^verbatim>\<open>.xls\<close>, \<^verbatim>\<open>.xlsx\<close>, or its declared MIME type is in the
  allow-list. Each condition alone is enough: an allowed extension accepts with any MIME
  type, an allowed MIME type accepts with any name.
\<close>

theorem type_check_accepts_iff:
  "((fileFilter file' = Inr True) =
      (toLowerCase (extname (originalname file')) \<in> {''.csv'', ''.xls'', ''.xlsx''}
       \<or> mimetype file' \<in> {''text/csv'', ''application/vnd.ms-excel'',
             ''application/vnd.openxmlformats-officedocument.spreadsheetml.sheet'',
             ''application/csv''}))
   \<and> (toLowerCase (extname (originalname file')) \<in> {''.csv'', ''.xls'', ''.xlsx''}
        \<longrightarrow> (\<forall>anyType. fileFilter (file'\<lparr>mimetype := anyType\<rparr>) = Inr True))
   \<and> (mimetype file' \<in> {''text/csv'', ''application/vnd.ms-excel'',
             ''application/vnd.openxmlformats-officedocument.spreadsheetml.sheet'',
             ''application/csv''}
        \<longrightarrow> (\<forall>anyName. fileFilter (file'\<lparr>originalname := anyName\<rparr>) = Inr True))"
  by (auto simp: fileFilter_def Let_def allowedTypes_def allowedExtensions_def)

theorem type_check_accepts_iff_witness:
  "fileFilter (upload_of ''Report.XLSX'' ''application/octet-stream'' ''two sheets'') = Inr True
   \<and> fileFilter (upload_of ''notes.txt'' ''text/csv'' abc_csv) = Inr True
   \<and> fileFilter (upload_of ''notes.txt'' ''text/plain'' abc_csv) \<noteq> Inr True"
proof -
  let ?xlsx = "upload_of ''Report.XLSX'' ''application/octet-stream'' ''two sheets''"
  let ?csv = "upload_of ''notes.txt'' ''text/csv'' abc_csv"
  let ?txt = "upload_of ''notes.txt'' ''text/plain'' abc_csv"
  have "toLowerCase (extname (originalname ?xlsx)) \<in> {''.csv'', ''.xls'', ''.xlsx''}"
    by (simp add: upload_of_def name_simps)
  with type_check_accepts_iff[of ?xlsx] have 1: "fileFilter ?xlsx = Inr True" by blast
  have "mimetype ?csv \<in> {''text/csv'', ''application/vnd.ms-excel'',
             ''application/vnd.openxmlformats-officedocument.spreadsheetml.sheet'',
             ''application/csv''}"
    by (simp add: upload_of_def)
  with type_check_accepts_iff[of ?csv] have 2: "fileFilter ?csv = Inr True" by blast
  have "toLowerCase (extname (originalname ?txt)) \<notin> {''.csv'', ''.xls'', ''.xlsx''}"
    and "mimetype ?txt \<notin> {''text/csv'', ''application/vnd.ms-excel'',
             ''application/vnd.openxmlformats-officedocument.spreadsheetml.sheet'',
             ''application/csv''}"
    by (simp_all add: upload_of_def name_simps)
  with type_check_accepts_iff[of ?txt] have 3: "fileFilter ?txt \<noteq> Inr True" by blast
  from 1 2 3 show ?thesis by blast
qed

text \<open>
  The browser form applies the same type check to the file's name and type before it
  sends the file, with \<^verbatim>\<open>endsWith\<close> on the lower-cased name in place of the extension.
\<close>

lemma validateFile_type_check:
  "(validateFile name type size_bytes
      = Some ''Invalid file type. Please upload CSV or Excel files only.'')
   = (type \<notin> set allowedTypes
      \<and> \<not> (\<exists>ext \<in> set allowedExtensions. suffix ext (toLowerCase name)))"
  by (simp add: validateFile_def hasValidExtension_def list_ex_iff endsWith_def
      file_too_large_message_def)

lemma upload_single_eq:
  "upload_single e (Some file) w =
     (if fieldname file \<noteq> ''file''
      then (Inl (MulterError ''LIMIT_UNEXPECTED_FILE'' ''Unexpected field''), w)
      else if fileFilter file \<noteq> Inr True then (Inl (Error invalid_type_message), w)
      else if length (content file) > fileSize_limit
      then (Inl (MulterError ''LIMIT_FILE_SIZE'' ''File too large''), w)
      else (Inr (Some (stored_as e file)), store e file w))"
  using fileFilter_cases[of "file"] by (auto simp: upload_single_def)


lemma upload_single_stored:
  assumes "upload_single e part w = (Inr (Some f), w1)"
  shows "\<exists>file'. part = Some file' \<and> fieldname file' = ''file'' \<and> fileFilter file' = Inr True
           \<and> length (content file') \<le> fileSize_limit
           \<and> f = stored_as e file' \<and> w1 = store e file' w"
proof (cases part)
  case None
  with assms show ?thesis by (simp add: upload_single_def)
next
  case (Some file')
  with assms show ?thesis by (auto simp: upload_single_eq split: if_splits)
qed

lemma store_effect:
  "disk (store e file' w) (path (stored_as e file')) = Some (content file')"
  "trace (store e file' w) = trace w @ [Stored (path (stored_as e file'))]"
  by (simp_all add: store_def emit_def Let_def)

subsection \<open>Release of the stored file\<close>

lemma cleanup_eq: "cleanup p w = Inr (released p w)"
  by (simp add: cleanup_def existsSync_def unlinkSync_def released_def)

lemma released_gone: "disk (released p w) p = None"
  by (simp add: released_def emit_def)

lemma released_twice: "released p (released p w) = released p w"
  by (simp add: released_def emit_def)

text \<open>
  C9. Releasing the stored file is safe when the file is already gone. The release never
  raises, whether the file is there or not, and a second release changes nothing. On a
  missing file it leaves the state as it is, where the bare \<^verbatim>\<open>unlinkSync\<close> would throw, and
  the \<^verbatim>\<open>catch\<close> block still sends its response for the processing error.
\<close>

theorem release_of_missing_file_is_noop:
  "(\<exists>w'. cleanup p w = Inr w' \<and> disk w' p = None \<and> cleanup p w' = Inr w')
   \<and> (disk w p = None \<longrightarrow>
        cleanup p w = Inr w
        \<and> (\<exists>msg. unlinkSync p w = Inl msg)
        \<and> catch_block p m w
            = (Value (), respond (json_failure 500 (''Error processing file: '' @ m)) w))"
proof -
  have "cleanup p w = Inr (released p w) \<and> disk (released p w) p = None
        \<and> cleanup p (released p w) = Inr (released p w)"
    by (simp add: cleanup_eq released_gone released_twice)
  then have first: "\<exists>w'. cleanup p w = Inr w' \<and> disk w' p = None \<and> cleanup p w' = Inr w'"
    by blast
  have second: "cleanup p w = Inr w \<and> (\<exists>msg. unlinkSync p w = Inl msg)
        \<and> catch_block p m w
            = (Value (), respond (json_failure 500 (''Error processing file: '' @ m)) w)"
    if "disk w p = None"
    using that by (simp add: cleanup_eq released_def catch_block_def unlinkSync_def)
  from first second show ?thesis by blast
qed

theorem release_of_missing_file_is_noop_witness:
  "disk fresh_world ''/srv/uploads/gone.csv'' = None
   \<and> cleanup ''/srv/uploads/gone.csv'' fresh_world = Inr fresh_world
   \<and> catch_block ''/srv/uploads/gone.csv'' ''boom'' fresh_world
       = (Value (), respond (json_failure 500 (''Error processing file: '' @ ''boom'')) fresh_world)"
proof -
  have h: "disk fresh_world ''/srv/uploads/gone.csv'' = None" by (simp add: fresh_world_def)
  from release_of_missing_file_is_noop[of "''/srv/uploads/gone.csv''" fresh_world "''boom''"] h
  show ?thesis by blast
qed

subsection \<open>The handler\<close>

lemma processCSV_effect:
  assumes "processCSV e p w = (c, w1)"
  shows "disk w1 = disk w
         \<and> (\<exists>pre. trace w1 = trace w @ pre \<and> (c \<noteq> Crash \<longrightarrow> list_all is_parse_event pre))
         \<and> (c = Crash \<longrightarrow> disk w p = None)"
  using assms
  by (auto simp: processCSV_def emit_def Let_def split: option.splits sum.splits)

lemma processExcel_effect:
  assumes "processExcel e p w = (c, w1)"
  shows "disk w1 = disk w \<and> (\<exists>pre. trace w1 = trace w @ pre \<and> list_all is_parse_event pre)
         \<and> c \<noteq> Crash"
  using assms
  by (auto simp: processExcel_def emit_def Let_def split: option.splits sum.splits)

lemma process_file_effect:
  assumes "process_file e ext p info w = (c, w1)"
  shows "disk w1 = disk w
         \<and> (\<exists>pre. trace w1 = trace w @ pre \<and> (c \<noteq> Crash \<longrightarrow> list_all is_parse_event pre))
         \<and> (c = Crash \<longrightarrow> disk w p = None)"
proof (cases "ext = ''.csv''")
  case True
  obtain c' w' where r: "processCSV e p w = (c', w')" by (cases "processCSV e p w")
  from processCSV_effect[OF r] assms True r show ?thesis
    by (cases c') (auto simp: process_file_def)
next
  case False
  show ?thesis
  proof (cases "ext \<in> set [''.xlsx'', ''.xls'']")
    case True
    obtain c' w' where r: "processExcel e p w = (c', w')" by (cases "processExcel e p w")
    from processExcel_effect[OF r] assms True False r show ?thesis
      by (cases c') (auto simp: process_file_def Let_def split: sum.splits)
  next
    case no: False
    with False assms show ?thesis by (auto simp: process_file_def)
  qed
qed

lemma try_block_eq:
  "try_block e ext p info w =
     (case process_file e ext p info w of
        (Value (d, i), w1) \<Rightarrow> (Value (), respond (json_success d i) (released p w1))
      | (Exception m, w1) \<Rightarrow> (Exception m, w1)
      | (Crash, w1) \<Rightarrow> (Crash, w1))"
  by (simp add: try_block_def cleanup_eq split: prod.splits completion.splits)

lemma upload_handler_eq:
  "upload_handler e (Some f) w =
     (case process_file e (toLowerCase (extname (file_originalname f))) (path f)
             (initial_info e f (toLowerCase (extname (file_originalname f)))) w of
        (Value (d, i), w1) \<Rightarrow> respond (json_success d i) (released (path f) w1)
      | (Exception m, w1) \<Rightarrow>
          respond (json_failure 500 (''Error processing file: '' @ m)) (released (path f) w1)
      | (Crash, w1) \<Rightarrow> w1)"
  by (simp add: upload_handler_def try_block_eq catch_block_def cleanup_eq Let_def
      split: prod.splits completion.splits)

lemma upload_handler_stored:
  assumes "disk w (path f) \<noteq> None"
  shows "\<exists>pre r. list_all is_parse_event pre \<and>
           upload_handler e (Some f) w =
             \<lparr>disk = (disk w)(path f := None),
              trace = trace w @ pre @ [Unlinked (path f), Responded r]\<rparr>"
proof -
  let ?ext = "toLowerCase (extname (file_originalname f))"
  obtain c w1 where r: "process_file e ?ext (path f) (initial_info e f ?ext) w = (c, w1)"
    by (cases "process_file e ?ext (path f) (initial_info e f ?ext) w")
  from process_file_effect[OF r] assms obtain pre where
    d: "disk w1 = disk w" and t: "trace w1 = trace w @ pre" and p: "list_all is_parse_event pre"
    and nc: "c \<noteq> Crash" by auto
  from assms obtain y where y: "disk w (path f) = Some y" by auto
  have w1: "w1 = \<lparr>disk = disk w, trace = trace w @ pre\<rparr>" using d t by (cases w1) simp
  show ?thesis
  proof (cases c)
    case (Value v)
    obtain dd i where v: "v = (dd, i)" by (cases v)
    have "upload_handler e (Some f) w = \<lparr>disk = (disk w)(path f := None),
              trace = trace w @ pre @ [Unlinked (path f), Responded (json_success dd i)]\<rparr>"
      using r Value v y
      by (simp add: upload_handler_eq respond_def released_def emit_def w1)
    with p show ?thesis by blast
  next
    case (Exception m)
    have "upload_handler e (Some f) w = \<lparr>disk = (disk w)(path f := None),
              trace = trace w @ pre @ [Unlinked (path f),
                Responded (json_failure 500 (''Error processing file: '' @ m))]\<rparr>"
      using r Exception y
      by (simp add: upload_handler_eq respond_def released_def emit_def w1)
    with p show ?thesis by blast
  next
    case Crash
    with nc show ?thesis by simp
  qed
qed

lemma parse_events_quiet:
  "list_all is_parse_event pre \<Longrightarrow> responses pre = [] \<and> filter (\<lambda>ev. ev = Unlinked p) pre = []"
proof (induction pre)
  case Nil
  then show ?case by simp
next
  case (Cons ev pre)
  then show ?case by (cases ev) auto
qed

text \<open>
  C1. For every upload request that reaches the stored state (the middleware wrote the file
  and handed it to the handler), the stored file is no longer on the disk when the request
  is over, and it was deleted before the response: after the storing, the request does
  nothing but parse, then unlinks the file, then responds. The file is unlinked exactly
  once, on the success path and on the error path alike.
\<close>

theorem stored_file_released_before_response:
  assumes "upload_single e part w = (Inr (Some f), w1)"
  shows "disk (post_api_upload e part w) (path f) = None
         \<and> (\<exists>pre r. list_all is_parse_event pre
               \<and> trace (post_api_upload e part w)
                   = trace w1 @ pre @ [Unlinked (path f), Responded r])
         \<and> length (filter (\<lambda>ev. ev = Unlinked (path f)) (upload_events e part w)) = 1"
proof -
  from upload_single_stored[OF assms] obtain file' where
    f: "f = stored_as e file'" and w1: "w1 = store e file' w" by blast
  have there: "disk w1 (path f) \<noteq> None" and tr: "trace w1 = trace w @ [Stored (path f)]"
    by (simp_all add: f w1 store_effect)
  have post: "post_api_upload e part w = upload_handler e (Some f) w1"
    using assms by (simp add: post_api_upload_def)
  from upload_handler_stored[OF there, of e] obtain pre r where
    q: "list_all is_parse_event pre" and
    h: "upload_handler e (Some f) w1 = \<lparr>disk = (disk w1)(path f := None),
              trace = trace w1 @ pre @ [Unlinked (path f), Responded r]\<rparr>" by blast
  have gone: "disk (post_api_upload e part w) (path f) = None" by (simp add: post h)
  have shape: "trace (post_api_upload e part w) = trace w1 @ pre @ [Unlinked (path f), Responded r]"
    by (simp add: post h)
  have "upload_events e part w = Stored (path f) # pre @ [Unlinked (path f), Responded r]"
    by (simp add: upload_events_def shape tr)
  then have once: "length (filter (\<lambda>ev. ev = Unlinked (path f)) (upload_events e part w)) = 1"
    using parse_events_quiet[OF q, of "path f"] by simp
  from gone shape q once show ?thesis by blast
qed

theorem stored_file_released_before_response_witness:
  "upload_single sample_env (Some (upload_of ''table.csv'' ''text/csv'' abc_csv)) fresh_world
     = (Inr (Some (stored_as sample_env (upload_of ''table.csv'' ''text/csv'' abc_csv))),
        store sample_env (upload_of ''table.csv'' ''text/csv'' abc_csv) fresh_world)
   \<and> disk (post_api_upload sample_env (Some (upload_of ''table.csv'' ''text/csv'' abc_csv))
             fresh_world)
        (path (stored_as sample_env (upload_of ''table.csv'' ''text/csv'' abc_csv))) = None
   \<and> length (filter
        (\<lambda>ev. ev = Unlinked (path (stored_as sample_env
                                      (upload_of ''table.csv'' ''text/csv'' abc_csv))))
        (upload_events sample_env (Some (upload_of ''table.csv'' ''text/csv'' abc_csv))
           fresh_world)) = 1"
proof -
  let ?x = "upload_of ''table.csv'' ''text/csv'' abc_csv"
  have h: "upload_single sample_env (Some ?x) fresh_world
             = (Inr (Some (stored_as sample_env ?x)), store sample_env ?x fresh_world)"
    by (simp add: upload_single_eq upload_of_def fileFilter_def allowedTypes_def abc_csv_def
        fileSize_limit_def Let_def)
  from stored_file_released_before_response[OF h] h show ?thesis by blast
qed

subsection \<open>The route\<close>

lemma post_api_upload_eq:
  "post_api_upload e part w =
     (case part of
        None \<Rightarrow> respond (json_failure 400 ''No file uploaded'') w
      | Some file' \<Rightarrow>
          if fieldname file' \<noteq> ''file'' then respond (json_failure 500 ''Unexpected field'') w
          else if fileFilter file' \<noteq> Inr True
          then respond (json_failure 500 invalid_type_message) w
          else if length (content file') > fileSize_limit
          then respond (json_failure 400 file_too_large_message) w
          else upload_handler e (Some (stored_as e file')) (store e file' w))"
proof (cases part)
  case None
  then show ?thesis
    by (simp add: post_api_upload_def upload_single_def upload_handler_def)
next
  case (Some file')
  then show ?thesis
    by (simp add: post_api_upload_def upload_single_eq error_middleware_def
        message_or_default_def invalid_type_message_def)
qed

lemma upload_events_respond:
  "post_api_upload e part w = respond r w \<Longrightarrow> upload_events e part w = [Responded r]"
  by (simp add: upload_events_def respond_def emit_def)

lemma stored_upload_events:
  assumes "fieldname file' = ''file''" and "fileFilter file' = Inr True"
    and "length (content file') \<le> fileSize_limit"
  shows "\<exists>pre c. list_all is_parse_event pre
           \<and> process_file e (toLowerCase (extname (originalname file')))
                 (path (stored_as e file'))
                 (initial_info e (stored_as e file') (toLowerCase (extname (originalname file'))))
                 (store e file' w)
               = (c, (store e file' w)\<lparr>trace := trace (store e file' w) @ pre\<rparr>)
           \<and> (case c of
                 Value (d, i) \<Rightarrow>
                   upload_events e (Some file') w
                     = Stored (path (stored_as e file')) # pre
                       @ [Unlinked (path (stored_as e file')), Responded (json_success d i)]
               | Exception m \<Rightarrow>
                   upload_events e (Some file') w
                     = Stored (path (stored_as e file')) # pre
                       @ [Unlinked (path (stored_as e file')),
                          Responded (json_failure 500 (''Error processing file: '' @ m))]
               | Crash \<Rightarrow> False)"
proof -
  let ?f = "stored_as e file'" and ?w1 = "store e file' w"
  let ?ext = "toLowerCase (extname (originalname file'))"
  have on: "file_originalname ?f = originalname file'" by (simp add: stored_as_def Let_def)
  have post: "post_api_upload e (Some file') w = upload_handler e (Some ?f) ?w1"
    using assms by (simp add: post_api_upload_eq)
  obtain c w2 where r: "process_file e ?ext (path ?f) (initial_info e ?f ?ext) ?w1 = (c, w2)"
    by (cases "process_file e ?ext (path ?f) (initial_info e ?f ?ext) ?w1")
  have there: "disk ?w1 (path ?f) = Some (content file')" by (simp add: store_effect)
  from process_file_effect[OF r] there obtain pre where
    d: "disk w2 = disk ?w1" and t: "trace w2 = trace ?w1 @ pre" and p: "list_all is_parse_event pre"
    and nc: "c \<noteq> Crash" by auto
  have w2: "w2 = ?w1\<lparr>trace := trace ?w1 @ pre\<rparr>" using d t by (cases w2, cases ?w1) simp
  have ev: "upload_events e (Some file') w = drop (length (trace w)) (trace (upload_handler e (Some ?f) ?w1))"
    by (simp add: upload_events_def post)
  have "case c of
          Value (d, i) \<Rightarrow>
            upload_events e (Some file') w
              = Stored (path ?f) # pre @ [Unlinked (path ?f), Responded (json_success d i)]
        | Exception m \<Rightarrow>
            upload_events e (Some file') w
              = Stored (path ?f) # pre
                @ [Unlinked (path ?f), Responded (json_failure 500 (''Error processing file: '' @ m))]
        | Crash \<Rightarrow> False"
    using nc r there
    by (cases c)
       (auto simp: ev upload_handler_eq on w2 respond_def released_def emit_def store_effect)
  with p r w2 show ?thesis by blast
qed

lemma unsupported_process_file:
  "ext \<notin> {''.csv'', ''.xls'', ''.xlsx''}
     \<Longrightarrow> process_file e ext p info w = (Exception (''Unsupported file type: '' @ ext), w)"
  by (simp add: process_file_def)

text \<open>
  C5. A file that passes validation (right field, accepted by the type check, within the
  size limit) but whose extension is none of \<^verbatim>\<open>.csv\<close>, \<^verbatim>\<open>.xls\<close>, \<^verbatim>\<open>.xlsx\<close> (so it was accepted
  for its MIME type) fails with the error \<^verbatim>\<open>Unsupported file type\<close>: the request stores the
  file, invokes no parser, releases the file and answers with the failure response.
\<close>

theorem unsupported_extension_fails_without_parsing:
  assumes "fieldname file' = ''file''" and "fileFilter file' = Inr True"
    and "length (content file') \<le> fileSize_limit"
    and "toLowerCase (extname (originalname file')) \<notin> {''.csv'', ''.xls'', ''.xlsx''}"
  shows "upload_events e (Some file') w
           = [Stored (path (stored_as e file')),
              Unlinked (path (stored_as e file')),
              Responded (json_failure 500
                (''Error processing file: Unsupported file type: ''
                   @ toLowerCase (extname (originalname file'))))]
         \<and> filter is_parse_event (upload_events e (Some file') w) = []
         \<and> mimetype file' \<in> set allowedTypes"
proof -
  let ?ext = "toLowerCase (extname (originalname file'))"
  from stored_upload_events[OF assms(1-3), of e w] obtain pre c where
    r: "process_file e ?ext (path (stored_as e file'))
          (initial_info e (stored_as e file') ?ext) (store e file' w)
        = (c, (store e file' w)\<lparr>trace := trace (store e file' w) @ pre\<rparr>)"
    and ev: "case c of
          Value (d, i) \<Rightarrow>
            upload_events e (Some file') w
              = Stored (path (stored_as e file')) # pre
                @ [Unlinked (path (stored_as e file')), Responded (json_success d i)]
        | Exception m \<Rightarrow>
            upload_events e (Some file') w
              = Stored (path (stored_as e file')) # pre
                @ [Unlinked (path (stored_as e file')),
                   Responded (json_failure 500 (''Error processing file: '' @ m))]
        | Crash \<Rightarrow> False"
    by blast
  from r unsupported_process_file[OF assms(4)]
  have c: "c = Exception (''Unsupported file type: '' @ ?ext)" and "trace (store e file' w) @ pre = trace (store e file' w)"
    by (auto dest: arg_cong[where f = trace])
  then have pre: "pre = []" by simp
  have events: "upload_events e (Some file') w
           = [Stored (path (stored_as e file')),
              Unlinked (path (stored_as e file')),
              Responded (json_failure 500
                (''Error processing file: Unsupported file type: '' @ ?ext))]"
    using ev c pre by simp
  have mime: "mimetype file' \<in> set allowedTypes"
    using assms(2,4) by (auto simp: fileFilter_def Let_def allowedExtensions_def split: if_splits)
  from events mime show ?thesis by simp
qed


theorem unsupported_extension_fails_without_parsing_witness:
  "fileFilter (upload_of ''notes.txt'' ''text/csv'' abc_csv) = Inr True
   \<and> toLowerCase (extname ''notes.txt'') = ''.txt''
   \<and> responses (upload_events sample_env (Some (upload_of ''notes.txt'' ''text/csv'' abc_csv))
         fresh_world)
       = [json_failure 500 (''Error processing file: Unsupported file type: '' @ ''.txt'')]
   \<and> filter is_parse_event
         (upload_events sample_env (Some (upload_of ''notes.txt'' ''text/csv'' abc_csv))
            fresh_world) = []"
proof -
  let ?x = "upload_of ''notes.txt'' ''text/csv'' abc_csv"
  have 1: "fieldname ?x = ''file''" by (simp add: upload_of_def)
  have 2: "fileFilter ?x = Inr True"
    by (simp add: upload_of_def fileFilter_def allowedTypes_def Let_def)
  have 3: "length (content ?x) \<le> fileSize_limit"
    by (simp add: upload_of_def abc_csv_def fileSize_limit_def)
  have ext: "toLowerCase (extname ''notes.txt'') = ''.txt''" by (simp add: name_simps)
  have 4: "toLowerCase (extname (originalname ?x)) \<notin> {''.csv'', ''.xls'', ''.xlsx''}"
    by (simp add: upload_of_def ext)
  have on: "originalname ?x = ''notes.txt''" by (simp add: upload_of_def)
  from unsupported_extension_fails_without_parsing[OF 1 2 3 4, of sample_env fresh_world]
  have "responses (upload_events sample_env (Some ?x) fresh_world)
          = [json_failure 500 (''Error processing file: Unsupported file type: '' @ ''.txt'')]"
    and "filter is_parse_event (upload_events sample_env (Some ?x) fresh_world) = []"
    by (simp_all add: on ext)
  with 2 ext show ?thesis by blast
qed

subsection \<open>Status codes and response shapes\<close>

lemma responses_append: "responses (xs @ ys) = responses xs @ responses ys"
  by (induction xs rule: responses.induct) simp_all

lemma upload_response_cases:
  obtains
    (no_file) "part = None"
      "responses (upload_events e part w) = [json_failure 400 ''No file uploaded'']"
  | (field) file' where "part = Some file'" "fieldname file' \<noteq> ''file''"
      "responses (upload_events e part w) = [json_failure 500 ''Unexpected field'']"
  | (type) file' where "part = Some file'" "fieldname file' = ''file''"
      "fileFilter file' \<noteq> Inr True"
      "responses (upload_events e part w) = [json_failure 500 invalid_type_message]"
  | (size) file' where "part = Some file'" "fieldname file' = ''file''"
      "fileFilter file' = Inr True" "length (content file') > fileSize_limit"
      "responses (upload_events e part w) = [json_failure 400 file_too_large_message]"
  | (processed) file' d i w' where "part = Some file'" "fieldname file' = ''file''"
      "fileFilter file' = Inr True" "length (content file') \<le> fileSize_limit"
      "process_file e (toLowerCase (extname (originalname file')))
         (path (stored_as e file'))
         (initial_info e (stored_as e file') (toLowerCase (extname (originalname file'))))
         (store e file' w) = (Value (d, i), w')"
      "responses (upload_events e part w) = [json_success d i]"
  | (failed) file' m w' where "part = Some file'" "fieldname file' = ''file''"
      "fileFilter file' = Inr True" "length (content file') \<le> fileSize_limit"
      "process_file e (toLowerCase (extname (originalname file')))
         (path (stored_as e file'))
         (initial_info e (stored_as e file') (toLowerCase (extname (originalname file'))))
         (store e file' w) = (Exception m, w')"
      "responses (upload_events e part w)
         = [json_failure 500 (''Error processing file: '' @ m)]"
proof (cases part)
  case None
  then have "upload_events e part w = [Responded (json_failure 400 ''No file uploaded'')]"
    by (simp add: post_api_upload_eq upload_events_respond)
  with None no_file show ?thesis by simp
next
  case (Some file')
  consider (a) "fieldname file' \<noteq> ''file''"
    | (b) "fieldname file' = ''file''" "fileFilter file' \<noteq> Inr True"
    | (c) "fieldname file' = ''file''" "fileFilter file' = Inr True"
        "length (content file') > fileSize_limit"
    | (d) "fieldname file' = ''file''" "fileFilter file' = Inr True"
        "length (content file') \<le> fileSize_limit"
    by fastforce
  then show ?thesis
  proof cases
    case a
    then have "upload_events e part w = [Responded (json_failure 500 ''Unexpected field'')]"
      by (simp add: Some post_api_upload_eq upload_events_respond)
    with Some a field show ?thesis by simp
  next
    case b
    then have "upload_events e part w = [Responded (json_failure 500 invalid_type_message)]"
      by (simp add: Some post_api_upload_eq upload_events_respond)
    with Some b type show ?thesis by simp
  next
    case c
    then have "upload_events e part w = [Responded (json_failure 400 file_too_large_message)]"
      by (simp add: Some post_api_upload_eq upload_events_respond)
    with Some c size show ?thesis by simp
  next
    case d
    from stored_upload_events[OF d, of e w] obtain pre c where
      q: "list_all is_parse_event pre" and
      r: "process_file e (toLowerCase (extname (originalname file')))
            (path (stored_as e file'))
            (initial_info e (stored_as e file') (toLowerCase (extname (originalname file'))))
            (store e file' w)
          = (c, (store e file' w)\<lparr>trace := trace (store e file' w) @ pre\<rparr>)" and
      ev: "case c of
          Value (d, i) \<Rightarrow>
            upload_events e (Some file') w
              = Stored (path (stored_as e file')) # pre
                @ [Unlinked (path (stored_as e file')), Responded (json_success d i)]
        | Exception m \<Rightarrow>
            upload_events e (Some file') w
              = Stored (path (stored_as e file')) # pre
                @ [Unlinked (path (stored_as e file')),
                   Responded (json_failure 500 (''Error processing file: '' @ m))]
        | Crash \<Rightarrow> False"
      by blast
    have quiet: "responses pre = []" using parse_events_quiet[OF q] by simp
    show ?thesis
    proof (cases c)
      case (Value v)
      obtain dd i where v: "v = (dd, i)" by (cases v)
      from ev Value v quiet have "responses (upload_events e part w) = [json_success dd i]"
        by (simp add: Some responses_append)
      with processed[OF Some d] r Value v show ?thesis by simp
    next
      case (Exception m)
      from ev Exception quiet have "responses (upload_events e part w)
          = [json_failure 500 (''Error processing file: '' @ m)]"
        by (simp add: Some responses_append)
      with failed[OF Some d] r Exception show ?thesis by simp
    next
      case Crash
      with ev show ?thesis by simp
    qed
  qed
qed

lemma response_shapes:
  "\<exists>r. responses (upload_events e part w) = [r]
       \<and> ((\<exists>d i. r = json_success d i)
          \<or> (\<exists>code msg. r = json_failure code msg \<and> msg \<noteq> [] \<and> (code = 400 \<or> code = 500)))"
  by (cases rule: upload_response_cases[of part e w])
     (auto simp: invalid_type_message_def file_too_large_message_def)

text \<open>
  C8. Every request is answered once. A failure response carries \<^verbatim>\<open>success = false\<close> and a
  non-empty message, and neither \<^verbatim>\<open>data\<close> nor \<^verbatim>\<open>processingInfo\<close>; a response has \<^verbatim>\<open>data\<close> or
  \<^verbatim>\<open>processingInfo\<close> only when \<^verbatim>\<open>success = true\<close>, and then it has both.
\<close>

theorem failure_responses_carry_no_data:
  "length (responses (upload_events e part w)) = 1
   \<and> (\<forall>r \<in> set (responses (upload_events e part w)).
        (\<not> success r \<longrightarrow> message r \<noteq> [] \<and> data r = None \<and> processingInfo r = None)
        \<and> (data r \<noteq> None \<or> processingInfo r \<noteq> None \<longrightarrow> success r)
        \<and> (success r \<longrightarrow> data r \<noteq> None \<and> processingInfo r \<noteq> None))"
  using response_shapes[of e part w]
  by (auto simp: json_success_def json_failure_def)

theorem failure_responses_carry_no_data_witness:
  "responses (upload_events sample_env (Some (upload_of ''notes.txt'' ''text/plain'' abc_csv))
      fresh_world) = [json_failure 500 invalid_type_message]
   \<and> \<not> success (json_failure 500 invalid_type_message)
   \<and> message (json_failure 500 invalid_type_message) \<noteq> []
   \<and> data (json_failure 500 invalid_type_message) = None
   \<and> processingInfo (json_failure 500 invalid_type_message) = None"
proof -
  let ?x = "upload_of ''notes.txt'' ''text/plain'' abc_csv"
  have no: "fileFilter ?x \<noteq> Inr True"
    by (simp add: upload_of_def fileFilter_def allowedTypes_def allowedExtensions_def name_simps)
  have rs: "responses (upload_events sample_env (Some ?x) fresh_world)
          = [json_failure 500 invalid_type_message]"
    using no by (simp add: post_api_upload_eq upload_events_respond upload_of_def)
  have f: "\<not> success (json_failure 500 invalid_type_message)" by (simp add: json_failure_def)
  from failure_responses_carry_no_data[of sample_env "Some ?x" fresh_world] rs f
  show ?thesis by simp
qed

subsection \<open>Rejected uploads\<close>

lemma upload_status_codes:
  "responses (upload_events e None w) = [json_failure 400 ''No file uploaded'']"
  "fieldname file' = ''file'' \<Longrightarrow> fileFilter file' = Inr True
     \<Longrightarrow> length (content file') > fileSize_limit
     \<Longrightarrow> responses (upload_events e (Some file') w) = [json_failure 400 file_too_large_message]"
  "fieldname file' = ''file'' \<Longrightarrow> fileFilter file' \<noteq> Inr True
     \<Longrightarrow> responses (upload_events e (Some file') w) = [json_failure 500 invalid_type_message]"
  "\<exists>r. responses (upload_events e part w) = [r]
       \<and> (if success r then status r = 200 else status r = 400 \<or> status r = 500)"
proof -
  show "responses (upload_events e None w) = [json_failure 400 ''No file uploaded'']"
    by (simp add: post_api_upload_eq upload_events_respond)
  show "responses (upload_events e (Some file') w) = [json_failure 400 file_too_large_message]"
    if "fieldname file' = ''file''" "fileFilter file' = Inr True"
      "length (content file') > fileSize_limit"
    using that by (simp add: post_api_upload_eq upload_events_respond)
  show "responses (upload_events e (Some file') w) = [json_failure 500 invalid_type_message]"
    if "fieldname file' = ''file''" "fileFilter file' \<noteq> Inr True"
    using that by (simp add: post_api_upload_eq upload_events_respond)
  show "\<exists>r. responses (upload_events e part w) = [r]
       \<and> (if success r then status r = 200 else status r = 400 \<or> status r = 500)"
    using response_shapes[of e part w] by (auto simp: json_success_def json_failure_def)
qed

text \<open>
  C3. The status is 200 on success, 400 when the request has no file and when the upload
  is oversize, and 500 for a parse or internal failure (\<open>upload_status_codes\<close>). An upload
  rejected for its type is not answered with 400: the file filter passes a plain \<^verbatim>\<open>Error\<close>
  on, the error middleware answers 400 for the \<^verbatim>\<open>LIMIT_FILE_SIZE\<close> error only, and the
  invalid type falls through to the general 500. The request below sends a text file.
\<close>

theorem invalid_type_is_answered_with_500:
  "fileFilter (upload_of ''notes.txt'' ''text/plain'' abc_csv) = Inl (Error invalid_type_message)
   \<and> responses (upload_events sample_env (Some (upload_of ''notes.txt'' ''text/plain'' abc_csv))
       fresh_world)
      = [\<lparr>status = 500, success = False, message = invalid_type_message,
          data = None, processingInfo = None\<rparr>]"
proof -
  let ?x = "upload_of ''notes.txt'' ''text/plain'' abc_csv"
  have no: "fileFilter ?x = Inl (Error invalid_type_message)"
    by (simp add: upload_of_def fileFilter_def allowedTypes_def allowedExtensions_def name_simps)
  then have "responses (upload_events sample_env (Some ?x) fresh_world)
          = [json_failure 500 invalid_type_message]"
    by (simp add: post_api_upload_eq upload_events_respond upload_of_def)
  with no show ?thesis by (simp add: json_failure_def)
qed

text \<open>
  C4, as stated, fails: a file of 10,485,761 bytes whose name and MIME type are both
  outside the allowed sets is rejected with the invalid-type message, not with the size
  message. The type check runs before anything is stored or counted, on the server and in
  the browser form (whose \<^verbatim>\<open>validateFile\<close> tests the type first as well).
\<close>

theorem oversize_invalid_type_counterexample:
  "fileSize_limit < length (content (upload_of ''big.txt'' ''text/plain'' oversize_bytes))
   \<and> map message (responses (upload_events sample_env
         (Some (upload_of ''big.txt'' ''text/plain'' oversize_bytes)) fresh_world))
       = [invalid_type_message]
   \<and> invalid_type_message \<noteq> file_too_large_message
   \<and> validateFile ''big.txt'' ''text/plain'' 10485761 \<noteq> Some file_too_large_message"
proof -
  let ?x = "upload_of ''big.txt'' ''text/plain'' oversize_bytes"
  have big: "fileSize_limit < length (content ?x)"
    by (simp add: upload_of_def oversize_bytes_def fileSize_limit_def)
  have no: "fileFilter ?x \<noteq> Inr True"
    by (simp add: upload_of_def fileFilter_def allowedTypes_def allowedExtensions_def name_simps)
  then have "responses (upload_events sample_env (Some ?x) fresh_world)
          = [json_failure 500 invalid_type_message]"
    by (simp add: post_api_upload_eq upload_events_respond upload_of_def)
  then have "map message (responses (upload_events sample_env (Some ?x) fresh_world))
          = [invalid_type_message]"
    by (simp add: json_failure_def)
  moreover have "invalid_type_message \<noteq> file_too_large_message"
    by (simp add: invalid_type_message_def file_too_large_message_def)
  moreover have "validateFile ''big.txt'' ''text/plain'' 10485761 \<noteq> Some file_too_large_message"
    by (simp add: validateFile_def allowedTypes_def hasValidExtension_def allowedExtensions_def
        endsWith_def suffix_to_prefix file_too_large_message_def name_simps)
  ultimately show ?thesis using big by blast
qed

text \<open>
  C4, amended. A file of more than 10,485,760 bytes that passes the type check (allowed
  extension or allowed MIME type) is rejected with the size message \<^verbatim>\<open>File too large.
  Maximum size allowed is 10MB.\<close> (status 400, nothing is stored); one that fails the type
  check is rejected with the invalid-type message. The two messages differ. The browser
  form gives the size message under the same condition.
\<close>

theorem oversize_rejected_after_type_check:
  assumes "fieldname file' = ''file''" and "length (content file') > 10485760"
  shows "(fileFilter file' = Inr True \<longrightarrow>
            upload_events e (Some file') w
              = [Responded (json_failure 400 ''File too large. Maximum size allowed is 10MB.'')])
         \<and> (fileFilter file' \<noteq> Inr True \<longrightarrow>
            upload_events e (Some file') w = [Responded (json_failure 500 invalid_type_message)])
         \<and> invalid_type_message \<noteq> ''File too large. Maximum size allowed is 10MB.''
         \<and> (type \<in> set allowedTypes \<or> hasValidExtension name \<longrightarrow>
              validateFile name type (length (content file'))
                = Some ''File too large. Maximum size allowed is 10MB.'')"
  using assms
  by (simp add: post_api_upload_eq upload_events_respond fileSize_limit_def
      file_too_large_message_def invalid_type_message_def validateFile_def)

theorem oversize_rejected_after_type_check_witness:
  "fieldname (upload_of ''big.csv'' ''text/plain'' oversize_bytes) = ''file''
   \<and> length (content (upload_of ''big.csv'' ''text/plain'' oversize_bytes)) > 10485760
   \<and> fileFilter (upload_of ''big.csv'' ''text/plain'' oversize_bytes) = Inr True
   \<and> upload_events sample_env (Some (upload_of ''big.csv'' ''text/plain'' oversize_bytes))
         fresh_world
       = [Responded (json_failure 400 ''File too large. Maximum size allowed is 10MB.'')]"
proof -
  let ?x = "upload_of ''big.csv'' ''text/plain'' oversize_bytes"
  have 1: "fieldname ?x = ''file''" by (simp add: upload_of_def)
  have 2: "length (content ?x) > 10485760" by (simp add: upload_of_def oversize_bytes_def)
  have 3: "fileFilter ?x = Inr True"
    by (simp add: upload_of_def fileFilter_def allowedTypes_def allowedExtensions_def name_simps)
  from oversize_rejected_after_type_check[OF 1 2, of sample_env fresh_world] 1 2 3
  show ?thesis by blast
qed

subsection \<open>The summary of a delimited-text file\<close>

text \<open>
  The summary of a delimited-text upload: \<^verbatim>\<open>rowCount\<close> is the length of the parsed row
  sequence, \<^verbatim>\<open>columns\<close> is \<^verbatim>\<open>Object.keys\<close> of the first row, and the empty list (present,
  not omitted) when there is no row.
\<close>

lemma csv_upload_response:
  assumes "fieldname file' = ''file''" and "length (content file') \<le> fileSize_limit"
    and "toLowerCase (extname (originalname file')) = ''.csv''"
    and "csvParser e (content file') = Inr rows"
  shows "responses (upload_events e (Some file') w)
           = [json_success (Delimited rows)
                ((initial_info e (stored_as e file') ''.csv'')
                   \<lparr>rowCount := Some (length rows),
                    columns := Some (case rows of [] \<Rightarrow> [] | first # _ \<Rightarrow> Object_keys first)\<rparr>)]"
proof -
  have ok: "fileFilter file' = Inr True"
    using assms(3) by (simp add: fileFilter_def allowedExtensions_def Let_def)
  have pf: "process_file e ''.csv'' (path (stored_as e file'))
              (initial_info e (stored_as e file') ''.csv'') (store e file' w)
            = (Value (Delimited rows,
                 (initial_info e (stored_as e file') ''.csv'')
                   \<lparr>rowCount := Some (length rows),
                    columns := Some (case rows of [] \<Rightarrow> [] | first # _ \<Rightarrow> Object_keys first)\<rparr>),
               emit (ParserInvoked DelimitedText (path (stored_as e file'))) (store e file' w))"
    using assms(4) by (simp add: process_file_def processCSV_def store_effect Let_def)
  show ?thesis
    by (cases rule: upload_response_cases[of "Some file'" e w])
       (use assms(1,2,3) ok pf in auto)
qed

lemma Object_keys_plain:
  assumes "\<forall>k \<in> set (map fst obj). \<not> is_array_index k"
  shows "Object_keys obj = map fst obj"
proof -
  from assms have "filter is_array_index (map fst obj) = []"
    and "filter (\<lambda>k. \<not> is_array_index k) (map fst obj) = map fst obj"
    by (simp_all add: filter_empty_conv)
  then show ?thesis by (simp add: Object_keys_def Let_def)
qed

lemma years_rows: "csvParser sample_env years_csv = Inr [[(''2024'', ''10''), (''2023'', ''20'')]]"
  by (simp add: sample_env_def years_csv_def csv_grid_def grid_rows_def obj_assign_def)

lemma years_keys: "Object_keys [(''2024'', ''10''), (''2023'', ''20'')] = [''2023'', ''2024'']"
  by (simp add: Object_keys_def is_array_index_def is_digit_def decimal_value_def digit_value_def)

lemma csv_columns_in_creation_order:
  assumes "fieldname file' = ''file''" and "length (content file') \<le> fileSize_limit"
    and "toLowerCase (extname (originalname file')) = ''.csv''"
    and "csvParser e (content file') = Inr (first # rest)"
    and "\<forall>k \<in> set (map fst first). \<not> is_array_index k"
  shows "map (\<lambda>r. map_option columns (processingInfo r))
           (responses (upload_events e (Some file') w)) = [Some (Some (map fst first))]"
  using csv_upload_response[OF assms(1-4), of w] Object_keys_plain[OF assms(5)]
  by (simp add: json_success_def)

lemma delimited_examples:
  "map (\<lambda>r. map_option (\<lambda>i. (rowCount i, columns i)) (processingInfo r))
     (responses (upload_events sample_env
        (Some (upload_of ''table.csv'' ''text/csv'' abc_csv)) fresh_world))
   = [Some (Some 2, Some [''a'', ''b'', ''c''])]"
  "map (\<lambda>r. map_option (\<lambda>i. (rowCount i, columns i)) (processingInfo r))
     (responses (upload_events sample_env
        (Some (upload_of ''table.csv'' ''text/csv'' header_only_csv)) fresh_world))
   = [Some (Some 0, Some [])]"
proof -
  have abc: "csvParser sample_env abc_csv
      = Inr [[(''a'', ''1''), (''b'', ''2''), (''c'', ''3'')],
             [(''a'', ''4''), (''b'', ''5''), (''c'', ''6'')]]"
    by (simp add: sample_env_def abc_csv_def csv_grid_def grid_rows_def obj_assign_def)
  have keys: "Object_keys [(''a'', ''1''), (''b'', ''2''), (''c'', ''3'')] = [''a'', ''b'', ''c'']"
    by (simp add: Object_keys_def is_array_index_def is_digit_def)
  have none: "csvParser sample_env header_only_csv = Inr []"
    by (simp add: sample_env_def header_only_csv_def csv_grid_def grid_rows_def)
  have ext: "toLowerCase (extname ''table.csv'') = ''.csv''" by (simp add: name_simps)
  show "map (\<lambda>r. map_option (\<lambda>i. (rowCount i, columns i)) (processingInfo r))
     (responses (upload_events sample_env
        (Some (upload_of ''table.csv'' ''text/csv'' abc_csv)) fresh_world))
   = [Some (Some 2, Some [''a'', ''b'', ''c''])]"
    using csv_upload_response[of "upload_of ''table.csv'' ''text/csv'' abc_csv" sample_env
        "[[(''a'', ''1''), (''b'', ''2''), (''c'', ''3'')],
          [(''a'', ''4''), (''b'', ''5''), (''c'', ''6'')]]" fresh_world] abc ext
    by (simp add: upload_of_def keys json_success_def fileSize_limit_def)
       (simp add: abc_csv_def)
  show "map (\<lambda>r. map_option (\<lambda>i. (rowCount i, columns i)) (processingInfo r))
     (responses (upload_events sample_env
        (Some (upload_of ''table.csv'' ''text/csv'' header_only_csv)) fresh_world))
   = [Some (Some 0, Some [])]"
    using csv_upload_response[of "upload_of ''table.csv'' ''text/csv'' header_only_csv" sample_env
        "[]" fresh_world] none ext
    by (simp add: upload_of_def json_success_def fileSize_limit_def)
       (simp add: header_only_csv_def)
qed

text \<open>
  C6. For a parsed delimited-text file, \<^verbatim>\<open>rowCount\<close> is the number of rows and \<^verbatim>\<open>columns\<close> is
  the empty list when there is no row (\<open>csv_upload_response\<close>, \<open>delimited_examples\<close>), and
  \<^verbatim>\<open>columns\<close> is the keys of the first row in source column order when no column name is an
  array index (\<open>csv_columns_in_creation_order\<close>). With integer-like column names the order
  is lost: the file below has the header \<^verbatim>\<open>2024,2023\<close>, its row is created with the
  properties in that order, and \<^verbatim>\<open>Object.keys\<close> of the row lists \<^verbatim>\<open>2023\<close> before \<^verbatim>\<open>2024\<close>.
\<close>

theorem integer_like_columns_are_reordered:
  "csvParser sample_env years_csv = Inr [[(''2024'', ''10''), (''2023'', ''20'')]]
   \<and> map (\<lambda>r. map_option columns (processingInfo r))
        (responses (upload_events sample_env
           (Some (upload_of ''years.csv'' ''text/csv'' years_csv)) fresh_world))
      = [Some (Some [''2023'', ''2024''])]"
proof -
  let ?x = "upload_of ''years.csv'' ''text/csv'' years_csv"
  have 1: "fieldname ?x = ''file''" by (simp add: upload_of_def)
  have 2: "length (content ?x) \<le> fileSize_limit"
    by (simp add: upload_of_def years_csv_def fileSize_limit_def)
  have 3: "toLowerCase (extname (originalname ?x)) = ''.csv''"
    by (simp add: upload_of_def name_simps)
  have 4: "csvParser sample_env (content ?x) = Inr [[(''2024'', ''10''), (''2023'', ''20'')]]"
    by (simp add: upload_of_def years_rows)
  from csv_upload_response[OF 1 2 3 4, of fresh_world] years_rows
  show ?thesis by (simp add: json_success_def years_keys)
qed

subsection \<open>The summary of a workbook\<close>

lemma obj_put_fresh: "k \<notin> fst ` set obj \<Longrightarrow> obj_put k v obj = obj @ [(k, v)]"
  by (induction obj) auto

lemma sheets_forEach_plain:
  assumes "\<forall>n \<in> set ns. sheet_to_json e (Sheets wb n) = Inr (rows_of n)"
    and "distinct ns" and "set ns \<inter> fst ` set result = {}" and "''__proto__'' \<notin> set ns"
  shows "sheets_forEach e wb ns result = Inr (result @ map (\<lambda>n. (n, rows_of n)) ns)"
  using assms
proof (induction ns arbitrary: result)
  case Nil
  then show ?case by simp
next
  case (Cons n ns)
  have fresh: "n \<notin> fst ` set result" using Cons.prems(3) by auto
  have step: "obj_assign n (rows_of n) result = result @ [(n, rows_of n)]"
    using Cons.prems(4) fresh by (auto simp: obj_assign_def obj_put_fresh)
  have "sheets_forEach e wb ns (result @ [(n, rows_of n)])
          = Inr ((result @ [(n, rows_of n)]) @ map (\<lambda>n. (n, rows_of n)) ns)"
    using Cons.prems by (intro Cons.IH) auto
  then show ?case using Cons.prems(1) by (simp add: step)
qed

lemma obj_get_listed:
  "k \<in> set ns \<Longrightarrow> obj_get (map (\<lambda>n. (n, rows_of n)) ns) k = Some (rows_of k)"
  by (induction ns) (auto simp: obj_get_def)

lemma count_rows_listed:
  "set ks \<subseteq> set ns \<Longrightarrow>
     count_rows (map (\<lambda>n. (n, rows_of n)) ns) ks counted
       = Inr (counted + sum_list (map (\<lambda>n. length (rows_of n)) ks))"
  by (induction ks arbitrary: counted) (simp_all add: obj_get_listed)

text \<open>
  The summary of a workbook upload whose sheet names are distinct, none an array index
  and none \<^verbatim>\<open>__proto__\<close>: the sheet count, the names in declared order, and the sum of the
  sheets' row counts.
\<close>

lemma excel_upload_response:
  assumes "fieldname file' = ''file''" and "length (content file') \<le> fileSize_limit"
    and "toLowerCase (extname (originalname file')) \<in> {''.xlsx'', ''.xls''}"
    and "XLSX_readFile e (content file') = Inr wb"
    and "\<forall>n \<in> set (SheetNames wb). sheet_to_json e (Sheets wb n) = Inr (rows_of n)"
    and "distinct (SheetNames wb)"
    and "\<forall>n \<in> set (SheetNames wb). \<not> is_array_index n \<and> n \<noteq> ''__proto__''"
  shows "responses (upload_events e (Some file') w)
           = [json_success (Workbook (map (\<lambda>n. (n, rows_of n)) (SheetNames wb)))
                ((initial_info e (stored_as e file') (toLowerCase (extname (originalname file'))))
                   \<lparr>sheetCount := Some (length (SheetNames wb)),
                    sheetNames := Some (SheetNames wb),
                    totalRows := Some (sum_list (map (\<lambda>n. length (rows_of n)) (SheetNames wb)))\<rparr>)]"
proof -
  let ?ext = "toLowerCase (extname (originalname file'))"
  let ?obj = "map (\<lambda>n. (n, rows_of n)) (SheetNames wb)"
  have ok: "fileFilter file' = Inr True"
    using assms(3) by (auto simp: fileFilter_def allowedExtensions_def Let_def)
  have ext: "?ext \<noteq> ''.csv''" "?ext \<in> set [''.xlsx'', ''.xls'']" using assms(3) by auto
  have loop: "sheets_forEach e wb (SheetNames wb) [] = Inr ?obj"
    using sheets_forEach_plain[of "SheetNames wb" e wb rows_of "[]"] assms(5,6,7) by auto
  have "map fst ?obj = SheetNames wb" by (simp add: comp_def)
  then have keys: "Object_keys ?obj = SheetNames wb"
    using Object_keys_plain[of ?obj] assms(7) by simp
  have total: "count_rows ?obj (SheetNames wb) 0
                 = Inr (sum_list (map (\<lambda>n. length (rows_of n)) (SheetNames wb)))"
    using count_rows_listed[of "SheetNames wb" "SheetNames wb" rows_of 0] by simp
  have pe: "processExcel e (path (stored_as e file')) (store e file' w)
              = (Value ?obj, emit (ParserInvoked WorkbookReader (path (stored_as e file')))
                              (store e file' w))"
    using assms(4) loop by (simp add: processExcel_def store_effect Let_def)
  have pf: "process_file e ?ext (path (stored_as e file'))
              (initial_info e (stored_as e file') ?ext) (store e file' w)
            = (Value (Workbook ?obj,
                 (initial_info e (stored_as e file') ?ext)
                   \<lparr>sheetCount := Some (length (SheetNames wb)),
                    sheetNames := Some (SheetNames wb),
                    totalRows := Some (sum_list (map (\<lambda>n. length (rows_of n)) (SheetNames wb)))\<rparr>),
               emit (ParserInvoked WorkbookReader (path (stored_as e file'))) (store e file' w))"
    using ext by (simp add: process_file_def pe keys total Let_def)
  show ?thesis
    by (cases rule: upload_response_cases[of "Some file'" e w])
       (use assms(1,2) ok pf in auto)
qed

lemma workbook_example:
  "map (\<lambda>r. map_option (\<lambda>i. (sheetCount i, sheetNames i, totalRows i)) (processingInfo r))
     (responses (upload_events sample_env
        (Some (upload_of ''book.xlsx'' ''application/vnd.ms-excel'' ''two sheets'')) fresh_world))
   = [Some (Some 2, Some [''Sales'', ''Costs''], Some 8)]"
proof -
  let ?x = "upload_of ''book.xlsx'' ''application/vnd.ms-excel'' ''two sheets''"
  have 1: "fieldname ?x = ''file''" by (simp add: upload_of_def)
  have 2: "length (content ?x) \<le> fileSize_limit" by (simp add: upload_of_def fileSize_limit_def)
  have 3: "toLowerCase (extname (originalname ?x)) \<in> {''.xlsx'', ''.xls''}"
    by (simp add: upload_of_def name_simps)
  have 4: "XLSX_readFile sample_env (content ?x) = Inr two_sheets"
    by (simp add: upload_of_def sample_env_def)
  have 5: "\<forall>n \<in> set (SheetNames two_sheets).
             sheet_to_json sample_env (Sheets two_sheets n) = Inr (grid_rows (Sheets two_sheets n))"
    by (simp add: sample_env_def)
  have 6: "distinct (SheetNames two_sheets)" by (simp add: two_sheets_def)
  have 7: "\<forall>n \<in> set (SheetNames two_sheets). \<not> is_array_index n \<and> n \<noteq> ''__proto__''"
    by (simp add: two_sheets_def is_array_index_def is_digit_def)
  from excel_upload_response[OF 1 2 3 4 5 6 7, of fresh_world]
  show ?thesis
    by (simp add: json_success_def) (simp add: two_sheets_def grid_rows_def)
qed

text \<open>
  C7. For a parsed workbook whose sheet names are distinct, none an array index and none
  \<^verbatim>\<open>__proto__\<close>, \<^verbatim>\<open>sheetCount\<close> is the number of sheets, \<^verbatim>\<open>sheetNames\<close> lists them in declared
  order and \<^verbatim>\<open>totalRows\<close> is the sum of the row counts (\<open>excel_upload_response\<close>,
  \<open>workbook_example\<close>). The declared order is lost for integer-like sheet names:
  \<^verbatim>\<open>processExcel\<close> collects the sheets in an object and the handler reads the names back with
  \<^verbatim>\<open>Object.keys\<close>. The workbook below declares the sheets \<^verbatim>\<open>2024\<close>, \<^verbatim>\<open>2023\<close>; the summary
  lists \<^verbatim>\<open>2023\<close> first.
\<close>

theorem integer_like_sheet_names_are_reordered:
  "SheetNames year_sheets = [''2024'', ''2023'']
   \<and> XLSX_readFile sample_env ''year sheets'' = Inr year_sheets
   \<and> map (\<lambda>r. map_option sheetNames (processingInfo r))
        (responses (upload_events sample_env
           (Some (upload_of ''years.xlsx'' ''application/vnd.ms-excel'' ''year sheets''))
           fresh_world))
      = [Some (Some [''2023'', ''2024''])]"
proof -
  let ?x = "upload_of ''years.xlsx'' ''application/vnd.ms-excel'' ''year sheets''"
  let ?ext = "toLowerCase (extname (originalname ?x))"
  let ?obj = "[(''2024'', [[(''id'', ''1'')], [(''id'', ''2'')]]), (''2023'', [[(''id'', ''3'')]])]"
  have 1: "fieldname ?x = ''file''" by (simp add: upload_of_def)
  have 2: "length (content ?x) \<le> fileSize_limit" by (simp add: upload_of_def fileSize_limit_def)
  have ok: "fileFilter ?x = Inr True"
    by (simp add: upload_of_def fileFilter_def allowedTypes_def Let_def)
  have ext: "?ext = ''.xlsx''" by (simp add: upload_of_def name_simps)
  have names: "SheetNames year_sheets = [''2024'', ''2023'']" by (simp add: year_sheets_def)
  have rd: "XLSX_readFile sample_env ''year sheets'' = Inr year_sheets" by (simp add: sample_env_def)
  have loop: "sheets_forEach sample_env year_sheets [''2024'', ''2023''] [] = Inr ?obj"
    by (simp add: sample_env_def year_sheets_def grid_rows_def obj_assign_def)
  have keys: "Object_keys ?obj = [''2023'', ''2024'']"
    by (simp add: Object_keys_def is_array_index_def is_digit_def decimal_value_def digit_value_def)
  have pe: "processExcel sample_env (path (stored_as sample_env ?x)) (store sample_env ?x fresh_world)
              = (Value ?obj, emit (ParserInvoked WorkbookReader (path (stored_as sample_env ?x)))
                              (store sample_env ?x fresh_world))"
    using rd loop names
    by (simp add: processExcel_def store_effect Let_def upload_of_def)
  have pf: "process_file sample_env ?ext (path (stored_as sample_env ?x))
              (initial_info sample_env (stored_as sample_env ?x) ?ext) (store sample_env ?x fresh_world)
            = (Value (Workbook ?obj,
                 (initial_info sample_env (stored_as sample_env ?x) ?ext)
                   \<lparr>sheetCount := Some 2, sheetNames := Some [''2023'', ''2024''],
                    totalRows := Some 3\<rparr>),
               emit (ParserInvoked WorkbookReader (path (stored_as sample_env ?x)))
                 (store sample_env ?x fresh_world))"
    unfolding ext by (simp add: process_file_def pe keys obj_get_def Let_def)
  have "responses (upload_events sample_env (Some ?x) fresh_world)
          = [json_success (Workbook ?obj)
               ((initial_info sample_env (stored_as sample_env ?x) ?ext)
                   \<lparr>sheetCount := Some 2, sheetNames := Some [''2023'', ''2024''],
                    totalRows := Some 3\<rparr>)]"
    by (cases rule: upload_response_cases[of "Some ?x" sample_env fresh_world])
       (use 1 2 ok pf in auto)
  with names rd show ?thesis by (simp add: json_success_def)
qed

subsection \<open>The type tag\<close>

lemma upper_lower_char: "upper_char (lower_char c) = upper_char c"
  by (simp add: upper_char_def lower_char_def ascii_upper_def ascii_lower_def)

lemma toUpperCase_toLowerCase: "toUpperCase (toLowerCase s) = toUpperCase s"
  by (simp add: toUpperCase_def toLowerCase_def upper_lower_char)

lemma extname_dot: "extname n = [] \<or> (\<exists>rest. extname n = CHR ''.'' # rest)"
  by (simp add: extname_def Let_def)

lemma upper_dot: "upper_char CHR ''.'' = CHR ''.''"
  by (simp add: upper_char_def ascii_upper_def ascii_lower_def)

lemma dot_fileType:
  assumes "extname n \<noteq> []"
  shows "CHR ''.'' # substring1 (toUpperCase (toLowerCase (extname n))) = toUpperCase (extname n)"
proof -
  from assms extname_dot[of n] obtain rest where "extname n = CHR ''.'' # rest" by blast
  then show ?thesis
    by (simp add: toUpperCase_toLowerCase substring1_def) (simp add: toUpperCase_def upper_dot)
qed

lemma process_file_Value:
  assumes "process_file e ext p info0 w = (Value (d, i), w')"
  shows "fileType i = fileType info0
         \<and> ((ext = ''.csv'' \<and> (\<exists>rows. d = Delimited rows))
            \<or> (ext \<in> {''.xlsx'', ''.xls''} \<and> (\<exists>obj. d = Workbook obj)))"
proof (cases "ext = ''.csv''")
  case True
  with assms show ?thesis
    by (auto simp: process_file_def split: prod.splits completion.splits)
next
  case False
  with assms show ?thesis
    by (auto simp: process_file_def Let_def split: prod.splits completion.splits sum.splits if_splits)
qed

lemma delimited_preview_iff:
  "is_delimited_preview (renderDataPreview (Some tbl) info) = (fileType info = ''CSV'')"
  by (cases tbl) (simp_all add: renderDataPreview_def Let_def)

lemma tags: "substring1 (toUpperCase ''.csv'') = ''CSV''"
  "substring1 (toUpperCase ''.xlsx'') = ''XLSX''" "substring1 (toUpperCase ''.xls'') = ''XLS''"
  by (simp_all add: name_simps)

lemma initial_info_fileType:
  "fileType (initial_info e f (toLowerCase (extname n))) = substring1 (toUpperCase (extname n))"
  by (simp add: initial_info_def toUpperCase_toLowerCase)

text \<open>
  C10. For every upload that is answered with a summary, the \<^verbatim>\<open>fileType\<close> tag is the file's
  extension in upper case without its leading dot (putting the dot back gives the upper
  case of the extension), and the browser form renders the delimited-style preview exactly
  when the tag is \<^verbatim>\<open>CSV\<close>, which is exactly when the server parsed the file as delimited
  text.
\<close>

theorem fileType_is_upper_case_extension:
  assumes "r \<in> set (responses (upload_events e (Some file') w))"
    and "processingInfo r = Some info"
  shows "CHR ''.'' # fileType info = toUpperCase (extname (originalname file'))
         \<and> fileType info = substring1 (toUpperCase (toLowerCase (extname (originalname file'))))
         \<and> (\<exists>p. result_preview r = Some p
                \<and> is_delimited_preview p = (fileType info = ''CSV''))
         \<and> (fileType info = ''CSV'') = (toLowerCase (extname (originalname file')) = ''.csv'')"
proof (cases rule: upload_response_cases[of "Some file'" e w])
  case (processed f d i w')
  let ?ext = "toLowerCase (extname (originalname file'))"
  from processed(1) have f: "f = file'" by simp
  from assms processed(6) have r: "r = json_success d i" and i: "i = info"
    by (auto simp: json_success_def)
  from process_file_Value[OF processed(5)[unfolded f]]
  have ft: "fileType info = substring1 (toUpperCase ?ext)"
    and ext: "?ext \<in> {''.csv'', ''.xlsx'', ''.xls''}"
    by (auto simp: i initial_info_def)
  from ext have ne: "extname (originalname file') \<noteq> []" by (auto simp: toLowerCase_def)
  have 1: "CHR ''.'' # fileType info = toUpperCase (extname (originalname file'))"
    using dot_fileType[OF ne] ft by simp
  have 3: "\<exists>p. result_preview r = Some p \<and> is_delimited_preview p = (fileType info = ''CSV'')"
    by (simp add: r i result_preview_def json_success_def delimited_preview_iff)
  have 4: "(fileType info = ''CSV'') = (?ext = ''.csv'')"
    using ext ft by (auto simp: tags)
  from 1 ft 3 4 show ?thesis by blast
qed (use assms in \<open>auto simp: json_failure_def\<close>)


theorem fileType_is_upper_case_extension_witness:
  "map (\<lambda>r. map_option fileType (processingInfo r))
     (responses (upload_events sample_env
        (Some (upload_of ''Data.CSV'' ''text/plain'' abc_csv)) fresh_world))
   = [Some ''CSV'']
   \<and> toUpperCase (extname ''Data.CSV'') = ''.CSV''"
proof -
  let ?x = "upload_of ''Data.CSV'' ''text/plain'' abc_csv"
  let ?rows = "[[(''a'', ''1''), (''b'', ''2''), (''c'', ''3'')],
                [(''a'', ''4''), (''b'', ''5''), (''c'', ''6'')]]"
  define info where "info = (initial_info sample_env (stored_as sample_env ?x) ''.csv'')
       \<lparr>rowCount := Some (length ?rows),
        columns := Some (case ?rows of [] \<Rightarrow> [] | first # _ \<Rightarrow> Object_keys first)\<rparr>"
  have 1: "fieldname ?x = ''file''" by (simp add: upload_of_def)
  have 2: "length (content ?x) \<le> fileSize_limit"
    by (simp add: upload_of_def abc_csv_def fileSize_limit_def)
  have 3: "toLowerCase (extname (originalname ?x)) = ''.csv''"
    by (simp add: upload_of_def name_simps)
  have 4: "csvParser sample_env (content ?x) = Inr ?rows"
    by (simp add: upload_of_def sample_env_def abc_csv_def csv_grid_def grid_rows_def obj_assign_def)
  have rs: "responses (upload_events sample_env (Some ?x) fresh_world)
              = [json_success (Delimited ?rows) info]"
    using csv_upload_response[OF 1 2 3 4, of fresh_world] by (simp add: info_def)
  have m: "json_success (Delimited ?rows) info
             \<in> set (responses (upload_events sample_env (Some ?x) fresh_world))"
    by (simp add: rs)
  have pi: "processingInfo (json_success (Delimited ?rows) info) = Some info"
    by (simp add: json_success_def)
  have up: "toUpperCase (extname ''Data.CSV'') = ''.CSV''" by (simp add: name_simps)
  from fileType_is_upper_case_extension[OF m pi]
  have "CHR ''.'' # fileType info = toUpperCase (extname (originalname ?x))"
    by blast
  then have "fileType info = ''CSV''" by (simp add: upload_of_def up)
  with rs up show ?thesis by (simp add: json_success_def)
qed

end
